theory Spec2Isabelle
  imports
    Main
    "HOL-Library.Word"
    "HOL-Library.AList"
    "HOL-Library.Char_ord"
    "HOL-Library.List_Lexorder"
begin

chapter \<open>The MLIR context, dialect registry, TypeID and Operation core\<close>

text \<open>
  A shallow embedding of the context-owned core of MLIR:
  \<^item> \<^verbatim>\<open>mlir/Support/TypeID.h\<close>: type identities;
  \<^item> \<^verbatim>\<open>mlir/IR/DialectRegistry.h\<close>: the namespace-to-constructor registry;
  \<^item> \<^verbatim>\<open>mlir/IR/MLIRContext.h\<close>, \<^verbatim>\<open>mlir/lib/IR/MLIRContext.cpp\<close>: dialect loading,
    threading toggles, cached singleton instances;
  \<^item> \<^verbatim>\<open>mlir/IR/Operation.h\<close>: result storage addressing.

  Member functions become functions that take the object's state and return the new
  state. A call that ends the process (\<^verbatim>\<open>llvm::report_fatal_error\<close>, a failed
  \<^verbatim>\<open>assert\<close>, a null dereference) is the left injection of a sum.
\<close>

section \<open>Process-ending outcomes and build configuration\<close>

datatype fatal =
    FatalError string          \<comment> \<open>\<^verbatim>\<open>llvm::report_fatal_error(msg)\<close>\<close>
  | AssertionFailure string    \<comment> \<open>a failed \<^verbatim>\<open>assert(cond && msg)\<close>, builds without \<^verbatim>\<open>NDEBUG\<close>\<close>
  | NullDereference            \<comment> \<open>member access through a null pointer (undefined behaviour)\<close>

text \<open>
  \<^verbatim>\<open>MLIRContextOptions\<close>: the command line options (MLIRContext.cpp, lines 61-77);
  \<^verbatim>\<open>clOptions\<close> is a \<^verbatim>\<open>ManagedStatic\<close>, constructed only once
  \<^verbatim>\<open>registerMLIRContextCLOptions\<close> ran.
\<close>

record MLIRContextOptions =
  disableThreading :: bool
  printOpOnDiagnostic :: bool
  printStackTraceOnDiagnostic :: bool

text \<open>
  What is fixed when the library is compiled or the process starts: whether
  \<^verbatim>\<open>NDEBUG\<close> is defined, whether \<^verbatim>\<open>LLVM_ENABLE_THREADS != 0\<close>, and the
  \<^verbatim>\<open>clOptions\<close> static (\<open>None\<close>: not constructed).
\<close>

record config =
  NDEBUG :: bool
  LLVM_ENABLE_THREADS :: bool
  clOptions :: "MLIRContextOptions option"

text \<open>MLIRContext.cpp, lines 82-88.\<close>

definition isThreadingGloballyDisabled :: "config \<Rightarrow> bool" where
  "isThreadingGloballyDisabled cfg =
     (if LLVM_ENABLE_THREADS cfg
      then (case clOptions cfg of None \<Rightarrow> False | Some opts \<Rightarrow> disableThreading opts)
      else True)"

text \<open>\<^verbatim>\<open>llvm::llvm_is_multithreaded()\<close> returns \<^verbatim>\<open>LLVM_ENABLE_THREADS != 0\<close>.\<close>

definition llvm_is_multithreaded :: "config \<Rightarrow> bool" where
  "llvm_is_multithreaded cfg = LLVM_ENABLE_THREADS cfg"

section \<open>TypeID\<close>

subsection \<open>Types and storage addresses\<close>

text \<open>
  The C++ types \<^verbatim>\<open>TypeID::get<T>\<close> is instantiated with. A type with external linkage
  is identified by its qualified name (one definition rule); a type declared in an
  anonymous namespace is local to its translation unit, so two translation units may
  each declare one of the same name.
\<close>

datatype cpp_type =
    ExternalType string
  | InternalType nat string   \<comment> \<open>translation unit, name\<close>

text \<open>
  \<^verbatim>\<open>llvm::getTypeName<T>()\<close> (not part of these sources) prints the qualified name; a
  type of an anonymous namespace is printed under \<^verbatim>\<open>(anonymous namespace)::\<close>.
\<close>

fun getTypeName :: "cpp_type \<Rightarrow> string" where
  "getTypeName (ExternalType n) = n"
| "getTypeName (InternalType tu n) = ''(anonymous namespace)::'' @ n"

text \<open>
  Which \<^verbatim>\<open>TypeIDResolver<T>\<close> the compiler selects for a type: the explicit
  specialisation of \<^verbatim>\<open>MLIR_DECLARE_EXPLICIT_TYPE_ID\<close>, the class's own static
  \<^verbatim>\<open>resolveTypeID\<close> of \<^verbatim>\<open>MLIR_DEFINE_EXPLICIT_INTERNAL_INLINE_TYPE_ID\<close>, or the primary
  template that falls back to the type's name.
\<close>

datatype resolver = ExplicitTypeID | InternalInlineTypeID | FallbackTypeID

text \<open>
  A \<^verbatim>\<open>const TypeID::Storage *\<close>. Distinct objects have distinct addresses: an address
  is either that of the static \<^verbatim>\<open>SelfOwningTypeID\<close> object belonging to a type, or the
  \<open>n\<close>-th cell handed out by a \<^verbatim>\<open>TypeIDAllocator\<close>.
\<close>

datatype Storage = StaticSlot cpp_type | Allocated nat

datatype TypeID = TypeID (storage: Storage)

text \<open>\<^verbatim>\<open>TypeID::operator==\<close> and \<^verbatim>\<open>operator!=\<close> (TypeID.h, lines 182-187).\<close>

definition TypeID_eq :: "TypeID \<Rightarrow> TypeID \<Rightarrow> bool" where
  "TypeID_eq a b = (storage a = storage b)"

definition TypeID_ne :: "TypeID \<Rightarrow> TypeID \<Rightarrow> bool" where
  "TypeID_ne a b = (\<not> TypeID_eq a b)"

text \<open>\<^verbatim>\<open>TypeID::getFromOpaquePointer\<close>, \<^verbatim>\<open>SelfOwningTypeID::getTypeID\<close> (returns the
  TypeID made of the object's own address).\<close>

definition getFromOpaquePointer :: "Storage \<Rightarrow> TypeID" where
  "getFromOpaquePointer pointer = TypeID pointer"

definition SelfOwningTypeID_getTypeID :: "Storage \<Rightarrow> TypeID" where
  "SelfOwningTypeID_getTypeID this = getFromOpaquePointer this"

subsection \<open>TypeIDAllocator and the implicit registry\<close>

text \<open>\<^verbatim>\<open>TypeIDAllocator\<close> (TypeID.h, lines 368-380): \<^verbatim>\<open>ids\<close> is a bump allocator, here the
  number of the next free cell.\<close>

record TypeIDAllocator =
  ids :: nat

definition allocate :: "TypeIDAllocator \<Rightarrow> TypeID \<times> TypeIDAllocator" where
  "allocate al = (TypeID (Allocated (ids al)), al\<lparr>ids := Suc (ids al)\<rparr>)"

text \<open>
  The process-wide state behind \<^verbatim>\<open>TypeID::get\<close>: the implicit registry (a table from
  type name to TypeID with its allocator) and, per type, the function-local
  \<^verbatim>\<open>static TypeID id\<close> of \<^verbatim>\<open>TypeIDResolver<T>::resolveTypeID\<close> (\<open>None\<close>: not yet
  initialised).
\<close>

record typeid_state =
  typeNameToID :: "string \<rightharpoonup> TypeID"
  typeIDAllocator :: TypeIDAllocator
  fallbackStatic :: "cpp_type \<rightharpoonup> TypeID"

definition initial_typeid_state :: typeid_state where
  "initial_typeid_state =
     \<lparr>typeNameToID = Map.empty, typeIDAllocator = \<lparr>ids = 0\<rparr>, fallbackStatic = Map.empty\<rparr>"

fun contains :: "string \<Rightarrow> string \<Rightarrow> bool" where
  "contains pat [] = (pat = [])"
| "contains pat (c # cs) = (take (length pat) (c # cs) = pat \<or> contains pat cs)"

text \<open>
  Modelled from the spec: \<^verbatim>\<open>FallbackTypeIDResolver::registerImplicitTypeID\<close> is declared
  in TypeID.h and defined in TypeID.cpp, which is not part of these sources. The spec:
  the registry resolves a TypeID by looking up (and if absent, registering) the type's
  name in a global string-keyed table, and must refuse (assert) to operate on types
  defined in an anonymous scope; TypeID.h (lines 152-158): the method ``may not be used
  for types defined in anonymous namespaces (which is asserted when it can be detected)''.
  The check is an assertion, so it is part of builds without \<^verbatim>\<open>NDEBUG\<close> only. A fresh
  identity comes from \<^verbatim>\<open>TypeIDAllocator::allocate\<close>.
\<close>

definition registerImplicitTypeID ::
    "config \<Rightarrow> string \<Rightarrow> typeid_state \<Rightarrow> fatal + (TypeID \<times> typeid_state)" where
  "registerImplicitTypeID cfg typeName st =
     (if \<not> NDEBUG cfg \<and> contains ''anonymous namespace'' typeName
      then Inl (AssertionFailure ''TypeID::get<> on a class in an anonymous namespace'')
      else (case typeNameToID st typeName of
              Some tid \<Rightarrow> Inr (tid, st)
            | None \<Rightarrow>
                (let (tid, al) = allocate (typeIDAllocator st)
                 in Inr (tid, st\<lparr>typeNameToID := (typeNameToID st)(typeName \<mapsto> tid),
                                 typeIDAllocator := al\<rparr>))))"

subsection \<open>\<^verbatim>\<open>TypeID::get\<close>\<close>

text \<open>
  \<^verbatim>\<open>TypeIDResolver<T>::resolveTypeID\<close>, primary template (TypeID.h, lines 265-270):
  \<^verbatim>\<open>static TypeID id = registerImplicitTypeID(llvm::getTypeName<T>()); return id;\<close>
  The static is initialised by the first call that reaches it.
\<close>

definition resolveTypeID_fallback ::
    "config \<Rightarrow> cpp_type \<Rightarrow> typeid_state \<Rightarrow> fatal + (TypeID \<times> typeid_state)" where
  "resolveTypeID_fallback cfg T st =
     (case fallbackStatic st T of
        Some tid \<Rightarrow> Inr (tid, st)
      | None \<Rightarrow>
          (case registerImplicitTypeID cfg (getTypeName T) st of
             Inl e \<Rightarrow> Inl e
           | Inr (tid, st') \<Rightarrow>
               Inr (tid, st'\<lparr>fallbackStatic := (fallbackStatic st')(T \<mapsto> tid)\<rparr>)))"

text \<open>
  The explicit resolvers (TypeID.h, lines 322-356) return \<^verbatim>\<open>id\<close>, a static
  \<^verbatim>\<open>SelfOwningTypeID\<close> object of the type, converted to the TypeID of its address.
\<close>

definition resolveTypeID_explicit :: "cpp_type \<Rightarrow> TypeID" where
  "resolveTypeID_explicit T = SelfOwningTypeID_getTypeID (StaticSlot T)"

text \<open>\<^verbatim>\<open>TypeID::get<T>\<close> (TypeID.h, lines 304-307): \<^verbatim>\<open>TypeIDResolver<T>::resolveTypeID()\<close>.\<close>

definition TypeID_get ::
    "config \<Rightarrow> (cpp_type \<Rightarrow> resolver) \<Rightarrow> cpp_type \<Rightarrow> typeid_state \<Rightarrow>
     fatal + (TypeID \<times> typeid_state)" where
  "TypeID_get cfg resolverOf T st =
     (case resolverOf T of
        ExplicitTypeID \<Rightarrow> Inr (resolveTypeID_explicit T, st)
      | InternalInlineTypeID \<Rightarrow> Inr (resolveTypeID_explicit T, st)
      | FallbackTypeID \<Rightarrow> resolveTypeID_fallback cfg T st)"

text \<open>A program's successive calls \<^verbatim>\<open>TypeID::get<T1>(); TypeID::get<T2>(); ...\<close> and the
  TypeIDs they return.\<close>

fun TypeID_gets ::
    "config \<Rightarrow> (cpp_type \<Rightarrow> resolver) \<Rightarrow> cpp_type list \<Rightarrow> typeid_state \<Rightarrow>
     fatal + (TypeID list \<times> typeid_state)" where
  "TypeID_gets cfg resolverOf [] st = Inr ([], st)"
| "TypeID_gets cfg resolverOf (T # Ts) st =
     (case TypeID_get cfg resolverOf T st of
        Inl e \<Rightarrow> Inl e
      | Inr (tid, st') \<Rightarrow>
          (case TypeID_gets cfg resolverOf Ts st' of
             Inl e \<Rightarrow> Inl e
           | Inr (tids, st'') \<Rightarrow> Inr (tid # tids, st'')))"

section \<open>Dialects\<close>

text \<open>
  A \<^verbatim>\<open>Dialect\<close> object (Dialect.h): its address, and the fields \<^verbatim>\<open>name\<close> and
  \<^verbatim>\<open>dialectID\<close> the constructor \<^verbatim>\<open>Dialect(name, context, id)\<close> sets. A \<^verbatim>\<open>Dialect *\<close> is
  the object it points to, so two pointers are equal exactly when the addresses are; a
  null pointer, or an empty \<^verbatim>\<open>unique_ptr\<close>, is \<open>None\<close>.
\<close>

record Dialect =
  addr :: nat
  name :: string
  dialectID :: TypeID

definition getNamespace :: "Dialect \<Rightarrow> string" where
  "getNamespace d = name d"

definition getTypeID :: "Dialect \<Rightarrow> TypeID" where
  "getTypeID d = dialectID d"

section \<open>Containers\<close>

text \<open>
  \<^verbatim>\<open>DenseMap\<close> and \<^verbatim>\<open>MapVector\<close> are lists of key-value pairs with no key twice; the
  order of a \<^verbatim>\<open>DenseMap\<close> is the order its iteration happens to visit.
  \<^verbatim>\<open>try_emplace(key, value)\<close> inserts only where the key is absent; it returns the
  table, the value of the entry its iterator points to, and whether it inserted.
  \<^verbatim>\<open>m[key] = value\<close> is \<^const>\<open>AList.update\<close>, \<^verbatim>\<open>find\<close> is \<^const>\<open>map_of\<close>,
  \<^verbatim>\<open>erase\<close> is \<^const>\<open>AList.delete\<close>.
\<close>

definition try_emplace :: "'k \<Rightarrow> 'v \<Rightarrow> ('k \<times> 'v) list \<Rightarrow> ('k \<times> 'v) list \<times> 'v \<times> bool" where
  "try_emplace k v m =
     (case map_of m k of
        Some w \<Rightarrow> (m, w, False)
      | None \<Rightarrow> (m @ [(k, v)], v, True))"

section \<open>DialectRegistry\<close>

text \<open>
  \<^verbatim>\<open>DialectRegistry\<close> (DialectRegistry.h, lines 159-288). \<^verbatim>\<open>registry\<close> is a
  \<^verbatim>\<open>std::map\<close> from namespace to TypeID and allocator function, kept in key order as
  the map iterates; \<^verbatim>\<open>extensions\<close> is a \<^verbatim>\<open>MapVector\<close> from TypeID to extension.
  Allocator functions and extensions are values of the type parameters \<open>'a\<close> and
  \<open>'e\<close>: what running one does to a context is given separately (see \<open>externals\<close>).
\<close>

record ('a, 'e) DialectRegistry =
  registry :: "(string \<times> (TypeID \<times> 'a)) list"
  extensions :: "(TypeID \<times> 'e) list"

text \<open>\<^verbatim>\<open>explicit DialectRegistry()\<close>.\<close>

definition DialectRegistry_ctor :: "('a, 'e) DialectRegistry" where
  "DialectRegistry_ctor = \<lparr>registry = [], extensions = []\<rparr>"

text \<open>
  Modelled from the spec: \<^verbatim>\<open>DialectRegistry::insert(TypeID, StringRef, ctor)\<close> is declared
  in DialectRegistry.h (line 195) and defined in Dialect.cpp, which is not part of these
  sources. The spec: insert records (TypeID, namespace, allocatorFn); registering two
  different TypeIDs under the same namespace is detected at load time in the Context, not
  at registry-insert time. As for the \<^verbatim>\<open>std::map\<close> it is stored in, an entry whose
  namespace is already present is kept.
\<close>

definition DialectRegistry_insert ::
    "TypeID \<Rightarrow> string \<Rightarrow> 'a \<Rightarrow> ('a, 'e) DialectRegistry \<Rightarrow> ('a, 'e) DialectRegistry" where
  "DialectRegistry_insert typeID nm ctor this =
     (case map_of (registry this) nm of
        Some _ \<Rightarrow> this
      | None \<Rightarrow> this\<lparr>registry := insort_key fst (nm, (typeID, ctor)) (registry this)\<rparr>)"

text \<open>
  Modelled from the spec: \<^verbatim>\<open>DialectRegistry::getDialectAllocator\<close> is declared in
  DialectRegistry.h (lines 205-207: ``Return an allocation function for constructing the
  dialect identified by its namespace, or nullptr if the namespace is not in this
  registry'') and defined in Dialect.cpp, which is not part of these sources. The spec:
  returns the allocator for a namespace or a null/empty callable if unknown.
\<close>

definition getDialectAllocator :: "string \<Rightarrow> ('a, 'e) DialectRegistry \<Rightarrow> 'a option" where
  "getDialectAllocator nm this =
     (case map_of (registry this) nm of
        None \<Rightarrow> None
      | Some (typeID, ctor) \<Rightarrow> Some ctor)"

text \<open>
  \<^verbatim>\<open>DialectRegistry::appendTo\<close> (DialectRegistry.h, lines 211-220): insert every entry
  of this registry into the destination, then \<^verbatim>\<open>try_emplace\<close> a clone of every
  extension.
\<close>

definition appendTo :: "('a, 'e) DialectRegistry \<Rightarrow> ('a, 'e) DialectRegistry \<Rightarrow> ('a, 'e) DialectRegistry" where
  "appendTo this destination =
     (let dest1 = fold (\<lambda>nameAndRegistrationIt dest.
                          DialectRegistry_insert (fst (snd nameAndRegistrationIt))
                            (fst nameAndRegistrationIt) (snd (snd nameAndRegistrationIt)) dest)
                    (registry this) destination
      in fold (\<lambda>extension dest.
                 dest\<lparr>extensions := fst (try_emplace (fst extension) (snd extension) (extensions dest))\<rparr>)
           (extensions this) dest1)"

text \<open>\<^verbatim>\<open>getDialectNames\<close> (lines 223-227) and \<^verbatim>\<open>addExtension\<close> (lines 238-241), which
  returns whether the extension was added.\<close>

definition getDialectNames :: "('a, 'e) DialectRegistry \<Rightarrow> string list" where
  "getDialectNames this = map fst (registry this)"

definition addExtension ::
    "TypeID \<Rightarrow> 'e \<Rightarrow> ('a, 'e) DialectRegistry \<Rightarrow> bool \<times> ('a, 'e) DialectRegistry" where
  "addExtension extensionID extension this =
     (let (m, second, inserted) = try_emplace extensionID extension (extensions this)
      in (inserted, this\<lparr>extensions := m\<rparr>))"

text \<open>
  Modelled from the spec: \<^verbatim>\<open>DialectRegistry::isSubsetOf\<close> is declared in
  DialectRegistry.h (lines 281-283: ``Returns true if the current registry is a subset of
  'rhs', i.e. if 'rhs' contains all of the components of this registry'') and defined in
  Dialect.cpp, which is not part of these sources. The spec: true iff every namespace
  entry and extension of this registry is present in \<open>rhs\<close>.
\<close>

definition isSubsetOf :: "('a, 'e) DialectRegistry \<Rightarrow> ('a, 'e) DialectRegistry \<Rightarrow> bool" where
  "isSubsetOf this rhs =
     (list_all (\<lambda>ext. map_of (extensions rhs) (fst ext) \<noteq> None) (extensions this) \<and>
      list_all (\<lambda>it. map_of (registry rhs) (fst it) \<noteq> None) (registry this))"

section \<open>Uniqued storage\<close>

text \<open>
  A type or attribute handle (\<^verbatim>\<open>IntegerType\<close>, \<^verbatim>\<open>BoolAttr\<close>, ...) wraps a pointer to
  its storage instance; the default-constructed handle is null and converts to
  \<^verbatim>\<open>false\<close>.
\<close>

type_synonym Type = "nat option"
type_synonym Attribute = "nat option"

text \<open>\<^verbatim>\<open>IntegerType::SignednessSemantics\<close>.\<close>

datatype SignednessSemantics = Signless | Signed | Unsigned

text \<open>
  The keys of the builtin types the context caches: one per parameterless type class,
  and width with signedness for \<^verbatim>\<open>IntegerType\<close>.
\<close>

datatype TypeKey =
    Float4E2M1FNType | Float6E2M3FNType | Float6E3M2FNType | Float8E5M2Type
  | Float8E4M3Type | Float8E4M3FNType | Float8E5M2FNUZType | Float8E4M3FNUZType
  | Float8E4M3B11FNUZType | Float8E3M4Type | Float8E8M0FNUType | BFloat16Type
  | Float16Type | FloatTF32Type | Float32Type | Float64Type | Float80Type | Float128Type
  | IndexType
  | IntegerType nat SignednessSemantics
  | NoneType

text \<open>
  The keys of the attributes the context caches: the unknown location, an integer
  attribute of a type and a one-bit value (the boolean attributes are the integer
  attributes of the cached 1-bit type), the unit attribute, a dictionary attribute by
  its entry names, a string attribute by its value.
\<close>

datatype AttrKey =
    UnknownLoc
  | IntegerAttr Type bool
  | UnitAttr
  | DictionaryAttr "string list"
  | StringAttr string

text \<open>
  Modelled from the spec: \<^verbatim>\<open>StorageUniquer\<close> (\<^verbatim>\<open>TypeUniquer::get\<close>,
  \<^verbatim>\<open>AttributeUniquer::get\<close>, \<^verbatim>\<open>IntegerAttr::getBoolAttrUnchecked\<close>,
  \<^verbatim>\<open>DictionaryAttr::getEmptyUnchecked\<close>, \<^verbatim>\<open>StringAttr::getEmptyStringAttrUnchecked\<close>,
  \<^verbatim>\<open>disableMultithreading\<close>) is not part of these sources. The spec: given a key,
  \<open>get\<close> returns the single canonical storage for that key, constructing it only on
  first observation of the key; the uniquer exposes a mode switch (single-threaded /
  multi-threaded). \<open>storages\<close> lists each key with the address of its instance, in the
  order the instances were constructed.
\<close>

record 'k StorageUniquer =
  storages :: "('k \<times> nat) list"
  uniquerThreadingIsEnabled :: bool

definition StorageUniquer_ctor :: "'k StorageUniquer" where
  "StorageUniquer_ctor = \<lparr>storages = [], uniquerThreadingIsEnabled = True\<rparr>"

definition StorageUniquer_get :: "'k \<Rightarrow> 'k StorageUniquer \<Rightarrow> nat \<times> 'k StorageUniquer" where
  "StorageUniquer_get key u =
     (case map_of (storages u) key of
        Some p \<Rightarrow> (p, u)
      | None \<Rightarrow> (length (storages u), u\<lparr>storages := storages u @ [(key, length (storages u))]\<rparr>))"

definition StorageUniquer_disableMultithreading :: "bool \<Rightarrow> 'k StorageUniquer \<Rightarrow> 'k StorageUniquer" where
  "StorageUniquer_disableMultithreading flag u = u\<lparr>uniquerThreadingIsEnabled := \<not> flag\<rparr>"

section \<open>MLIRContextImpl\<close>

text \<open>A \<^verbatim>\<open>llvm::ThreadPoolInterface\<close> object, by its address.\<close>

type_synonym ThreadPool = nat

text \<open>
  \<^verbatim>\<open>MLIRContextImpl\<close> (MLIRContext.cpp, lines 132-331), the fields in the order of the
  class. \<^verbatim>\<open>multiThreadedExecutionContext\<close> exists in builds without \<^verbatim>\<open>NDEBUG\<close> only,
  and only such builds read it. \<^verbatim>\<open>loadedDialects\<close> holds \<open>None\<close> for a null
  \<^verbatim>\<open>unique_ptr\<close>. \<^verbatim>\<open>dialectReferencingStrAttrs\<close> maps a namespace to the addresses of
  the \<^verbatim>\<open>StringAttrStorage\<close> objects waiting for it, and \<open>referencedDialect\<close> is the
  field of that name of each such object. The affine uniquer keeps the names of the
  storage classes registered with it. The tables of operations, abstract types and
  abstract attributes, the diagnostic engine and the action handler play no part in the
  functions below and are left out.
\<close>

record ('a, 'e) MLIRContextImpl =
  allowUnregisteredDialects :: bool
  threadingIsEnabled :: bool
  multiThreadedExecutionContext :: int
  printOpOnDiagnostic :: bool
  printStackTraceOnDiagnostic :: bool
  threadPool :: "ThreadPool option"
  ownedThreadPool :: "ThreadPool option"
  loadedDialects :: "(string \<times> Dialect option) list"
  dialectsRegistry :: "('a, 'e) DialectRegistry"
  affineUniquer :: "string StorageUniquer"
  typeUniquer :: "TypeKey StorageUniquer"
  f4E2M1FNTy :: Type
  f6E2M3FNTy :: Type
  f6E3M2FNTy :: Type
  f8E5M2Ty :: Type
  f8E4M3Ty :: Type
  f8E4M3FNTy :: Type
  f8E5M2FNUZTy :: Type
  f8E4M3FNUZTy :: Type
  f8E4M3B11FNUZTy :: Type
  f8E3M4Ty :: Type
  f8E8M0FNUTy :: Type
  bf16Ty :: Type
  f16Ty :: Type
  tf32Ty :: Type
  f32Ty :: Type
  f64Ty :: Type
  f80Ty :: Type
  f128Ty :: Type
  indexTy :: Type
  int1Ty :: Type
  int8Ty :: Type
  int16Ty :: Type
  int32Ty :: Type
  int64Ty :: Type
  int128Ty :: Type
  noneType :: Type
  attributeUniquer :: "AttrKey StorageUniquer"
  falseAttr :: Attribute
  trueAttr :: Attribute
  unitAttr :: Attribute
  unknownLocAttr :: Attribute
  emptyDictionaryAttr :: Attribute
  emptyStringAttr :: Attribute
  dialectReferencingStrAttrs :: "(string \<times> nat list) list"
  referencedDialect :: "nat \<rightharpoonup> Dialect"

text \<open>
  \<^verbatim>\<open>MLIRContextImpl(bool threadingIsEnabled)\<close> (lines 318-324), with the members'
  default initialisers. \<open>newPool\<close> is the \<^verbatim>\<open>DefaultThreadPool\<close> object that
  \<^verbatim>\<open>std::make_unique\<close> creates when the constructor reaches it.
\<close>

definition MLIRContextImpl_ctor :: "ThreadPool \<Rightarrow> bool \<Rightarrow> ('a, 'e) MLIRContextImpl" where
  "MLIRContextImpl_ctor newPool threading =
     \<lparr>allowUnregisteredDialects = False,
      threadingIsEnabled = threading,
      multiThreadedExecutionContext = 0,
      printOpOnDiagnostic = True,
      printStackTraceOnDiagnostic = False,
      threadPool = (if threading then Some newPool else None),
      ownedThreadPool = (if threading then Some newPool else None),
      loadedDialects = [],
      dialectsRegistry = DialectRegistry_ctor,
      affineUniquer = StorageUniquer_ctor,
      typeUniquer = StorageUniquer_ctor,
      f4E2M1FNTy = None, f6E2M3FNTy = None, f6E3M2FNTy = None, f8E5M2Ty = None,
      f8E4M3Ty = None, f8E4M3FNTy = None, f8E5M2FNUZTy = None, f8E4M3FNUZTy = None,
      f8E4M3B11FNUZTy = None, f8E3M4Ty = None, f8E8M0FNUTy = None, bf16Ty = None,
      f16Ty = None, tf32Ty = None, f32Ty = None, f64Ty = None, f80Ty = None,
      f128Ty = None, indexTy = None,
      int1Ty = None, int8Ty = None, int16Ty = None, int32Ty = None, int64Ty = None,
      int128Ty = None, noneType = None,
      attributeUniquer = StorageUniquer_ctor,
      falseAttr = None, trueAttr = None, unitAttr = None, unknownLocAttr = None,
      emptyDictionaryAttr = None, emptyStringAttr = None,
      dialectReferencingStrAttrs = [],
      referencedDialect = Map.empty\<rparr>"

text \<open>
  Code of the repository that the functions below call and that is not part of these
  sources, taken as parameters: the two overloads of
  \<^verbatim>\<open>DialectRegistry::applyExtensions\<close> (declared in DialectRegistry.h, lines 229-235,
  defined in Dialect.cpp), and what calling an allocator function of the registry on a
  context does (it returns a \<^verbatim>\<open>Dialect *\<close>). Each may end the process.
\<close>

record ('a, 'e) externals =
  applyExtensionsToDialect ::
    "Dialect \<Rightarrow> ('a, 'e) MLIRContextImpl \<Rightarrow> fatal + ('a, 'e) MLIRContextImpl"
  applyExtensionsToContext ::
    "('a, 'e) DialectRegistry \<Rightarrow> ('a, 'e) MLIRContextImpl \<Rightarrow> fatal + ('a, 'e) MLIRContextImpl"
  callAllocator ::
    "'a \<Rightarrow> ('a, 'e) MLIRContextImpl \<Rightarrow> fatal + (Dialect option \<times> ('a, 'e) MLIRContextImpl)"

section \<open>Dialect loading\<close>

text \<open>\<^verbatim>\<open>MLIRContext::getLoadedDialect(StringRef)\<close> (lines 509-517):
  \<^verbatim>\<open>it->second.get()\<close> of the entry, or \<^verbatim>\<open>nullptr\<close>.\<close>

definition getLoadedDialect :: "('a, 'e) MLIRContextImpl \<Rightarrow> string \<Rightarrow> Dialect option" where
  "getLoadedDialect impl nm =
     (case map_of (loadedDialects impl) nm of
        Some second \<Rightarrow> second
      | None \<Rightarrow> None)"

text \<open>\<^verbatim>\<open>MLIRContext::isDialectLoading\<close> (lines 613-617).\<close>

definition isDialectLoading :: "('a, 'e) MLIRContextImpl \<Rightarrow> string \<Rightarrow> bool" where
  "isDialectLoading impl dialectNamespace =
     (case map_of (loadedDialects impl) dialectNamespace of
        Some second \<Rightarrow> second = None
      | None \<Rightarrow> False)"

text \<open>
  The loop of lines 584-589: every string attribute storage recorded as referencing the
  namespace gets the dialect, and the record is erased.
\<close>

definition refreshDialectReferencingStrAttrs ::
    "string \<Rightarrow> Dialect \<Rightarrow> ('a, 'e) MLIRContextImpl \<Rightarrow> ('a, 'e) MLIRContextImpl" where
  "refreshDialectReferencingStrAttrs dialectNamespace dialect impl =
     (case map_of (dialectReferencingStrAttrs impl) dialectNamespace of
        None \<Rightarrow> impl
      | Some stringAttrs \<Rightarrow>
          impl\<lparr>referencedDialect :=
                  fold (\<lambda>attrStorage m. m(attrStorage \<mapsto> dialect)) stringAttrs (referencedDialect impl),
               dialectReferencingStrAttrs :=
                  AList.delete dialectNamespace (dialectReferencingStrAttrs impl)\<rparr>)"

text \<open>
  \<^verbatim>\<open>MLIRContext::getOrLoadDialect(StringRef, TypeID, function_ref<...> ctor)\<close> (lines
  540-611). \<open>ctor\<close> runs on the context and returns a \<^verbatim>\<open>unique_ptr<Dialect>\<close>. The checks
  under \<^verbatim>\<open>#ifndef NDEBUG\<close> and the \<^verbatim>\<open>assert\<close> are there when \<open>NDEBUG cfg\<close> is false.
  With \<open>NDEBUG\<close>, a null result of \<open>ctor\<close> is dereferenced by \<^verbatim>\<open>applyExtensions\<close>, and a
  null entry of the table by \<^verbatim>\<open>dialect->getTypeID()\<close>.
\<close>

definition getOrLoadDialect ::
    "config \<Rightarrow> ('a, 'e) externals \<Rightarrow> ('a, 'e) MLIRContextImpl \<Rightarrow> string \<Rightarrow> TypeID \<Rightarrow>
     (('a, 'e) MLIRContextImpl \<Rightarrow> fatal + (Dialect option \<times> ('a, 'e) MLIRContextImpl)) \<Rightarrow>
     fatal + (Dialect \<times> ('a, 'e) MLIRContextImpl)" where
  "getOrLoadDialect cfg ext impl dialectNamespace dialectId ctor =
     (let (table, itSecond, inserted) = try_emplace dialectNamespace None (loadedDialects impl);
          impl1 = impl\<lparr>loadedDialects := table\<rparr>
      in if inserted then
           (if \<not> NDEBUG cfg \<and> multiThreadedExecutionContext impl1 \<noteq> 0
            then Inl (FatalError (''Loading a dialect ('' @ dialectNamespace @
                        '') while in a multi-threaded execution context''))
            else
              (case ctor impl1 of
                 Inl e \<Rightarrow> Inl e
               | Inr (dialectOwned, impl2) \<Rightarrow>
                   (let impl3 = impl2\<lparr>loadedDialects :=
                                   AList.update dialectNamespace dialectOwned (loadedDialects impl2)\<rparr>
                    in case dialectOwned of
                         None \<Rightarrow>
                           (if NDEBUG cfg then Inl NullDereference
                            else Inl (AssertionFailure ''dialect ctor failed''))
                       | Some dialect \<Rightarrow>
                           (case applyExtensionsToDialect ext dialect
                                   (refreshDialectReferencingStrAttrs dialectNamespace dialect impl3) of
                              Inl e \<Rightarrow> Inl e
                            | Inr impl4 \<Rightarrow> Inr (dialect, impl4)))))
         else
           (case itSecond of
              None \<Rightarrow>
                (if NDEBUG cfg then Inl NullDereference
                 else Inl (FatalError (''Loading (and getting) a dialect ('' @ dialectNamespace @
                             '') while the same dialect is still loading: use loadDialect instead '' @
                             ''of getOrLoadDialect.'')))
            | Some dialect \<Rightarrow>
                (if TypeID_ne (getTypeID dialect) dialectId
                 then Inl (FatalError (''a dialect with namespace '' @ [CHR 0x27] @ dialectNamespace @
                             [CHR 0x27] @ '' has already been registered''))
                 else Inr (dialect, impl1))))"

text \<open>
  A dialect class \<^verbatim>\<open>T\<close> as the templates use it: \<^verbatim>\<open>T::getDialectNamespace()\<close>, the
  value of \<^verbatim>\<open>TypeID::get<T>()\<close>, and \<^verbatim>\<open>new T(this)\<close>, which runs the class's constructor
  on the context (it may load other dialects) and returns the new object.
\<close>

record ('a, 'e) DialectClass =
  getDialectNamespace :: string
  classTypeID :: TypeID
  new :: "('a, 'e) MLIRContextImpl \<Rightarrow> fatal + (Dialect \<times> ('a, 'e) MLIRContextImpl)"

text \<open>\<^verbatim>\<open>MLIRContext::getOrLoadDialect<T>()\<close> (MLIRContext.h, lines 137-144).\<close>

definition getOrLoadDialect_T ::
    "config \<Rightarrow> ('a, 'e) externals \<Rightarrow> ('a, 'e) DialectClass \<Rightarrow> ('a, 'e) MLIRContextImpl \<Rightarrow>
     fatal + (Dialect \<times> ('a, 'e) MLIRContextImpl)" where
  "getOrLoadDialect_T cfg ext T impl =
     getOrLoadDialect cfg ext impl (getDialectNamespace T) (classTypeID T)
       (\<lambda>this. case new T this of
                  Inl e \<Rightarrow> Inl e
                | Inr (dialect, this') \<Rightarrow> Inr (Some dialect, this'))"

text \<open>\<^verbatim>\<open>MLIRContext::loadDialect<Dialect>()\<close> (MLIRContext.h, lines 149-155); it returns
  nothing.\<close>

definition loadDialect ::
    "config \<Rightarrow> ('a, 'e) externals \<Rightarrow> ('a, 'e) DialectClass \<Rightarrow> ('a, 'e) MLIRContextImpl \<Rightarrow>
     fatal + ('a, 'e) MLIRContextImpl" where
  "loadDialect cfg ext T impl =
     (if \<not> isDialectLoading impl (getDialectNamespace T)
      then (case getOrLoadDialect_T cfg ext T impl of
              Inl e \<Rightarrow> Inl e
            | Inr (dialect, impl') \<Rightarrow> Inr impl')
      else Inr impl)"


text \<open>
  \<^verbatim>\<open>MLIRContext::getOrLoadDialect(StringRef name)\<close> (lines 520-532): the loaded dialect,
  or what the registry's allocator for the name returns, or \<^verbatim>\<open>nullptr\<close>.
\<close>

definition getOrLoadDialect_name ::
    "('a, 'e) externals \<Rightarrow> ('a, 'e) MLIRContextImpl \<Rightarrow> string \<Rightarrow>
     fatal + (Dialect option \<times> ('a, 'e) MLIRContextImpl)" where
  "getOrLoadDialect_name ext impl nm =
     (case getLoadedDialect impl nm of
        Some dialect \<Rightarrow> Inr (Some dialect, impl)
      | None \<Rightarrow>
          (case getDialectAllocator nm (dialectsRegistry impl) of
             Some allocator \<Rightarrow> callAllocator ext allocator impl
           | None \<Rightarrow> Inr (None, impl)))"

text \<open>
  \<^verbatim>\<open>MLIRContext::appendDialectRegistry\<close> (lines 460-471). The \<^verbatim>\<open>assert\<close> on
  \<^verbatim>\<open>multiThreadedExecutionContext\<close> is there when \<open>NDEBUG cfg\<close> is false.
\<close>

definition appendDialectRegistry ::
    "config \<Rightarrow> ('a, 'e) externals \<Rightarrow> ('a, 'e) DialectRegistry \<Rightarrow> ('a, 'e) MLIRContextImpl \<Rightarrow>
     fatal + ('a, 'e) MLIRContextImpl" where
  "appendDialectRegistry cfg ext reg impl =
     (if isSubsetOf reg (dialectsRegistry impl) then Inr impl
      else if \<not> NDEBUG cfg \<and> multiThreadedExecutionContext impl \<noteq> 0
      then Inl (AssertionFailure (''appending to the MLIRContext dialect registry while in a '' @
                  ''multi-threaded execution context''))
      else applyExtensionsToContext ext reg
             (impl\<lparr>dialectsRegistry := appendTo reg (dialectsRegistry impl)\<rparr>))"

text \<open>\<^verbatim>\<open>MLIRContext::getAvailableDialects\<close> (lines 498-503).\<close>

definition getAvailableDialects :: "('a, 'e) MLIRContextImpl \<Rightarrow> string list" where
  "getAvailableDialects impl = getDialectNames (dialectsRegistry impl)"

section \<open>Listing the loaded dialects\<close>

text \<open>
  The comparison function that \<^verbatim>\<open>getLoadedDialects\<close> hands to \<^verbatim>\<open>llvm::array_pod_sort\<close>
  (lines 491-493): it dereferences both pointers and returns the \<^verbatim>\<open>bool\<close>
  \<^verbatim>\<open>(*lhs)->getNamespace() < (*rhs)->getNamespace()\<close> converted to \<^verbatim>\<open>int\<close>.
  \<^verbatim>\<open>StringRef::operator<\<close> compares the bytes lexicographically.
\<close>

definition compareNamespaces :: "Dialect option \<Rightarrow> Dialect option \<Rightarrow> fatal + int" where
  "compareNamespaces lhs rhs =
     (case lhs of
        None \<Rightarrow> Inl NullDereference
      | Some l \<Rightarrow>
          (case rhs of
             None \<Rightarrow> Inl NullDereference
           | Some r \<Rightarrow> Inr (if getNamespace l < getNamespace r then 1 else 0)))"

text \<open>
  \<^verbatim>\<open>MLIRContext::getLoadedDialects\<close> (lines 480-495). \<^verbatim>\<open>llvm::array_pod_sort\<close>
  (llvm/ADT/STLExtras.h, a wrapper around the C library's \<^verbatim>\<open>qsort\<close>) is not part of
  these sources and is the parameter \<open>array_pod_sort\<close>: it takes the comparison
  function and the array.
\<close>

definition getLoadedDialects ::
    "((Dialect option \<Rightarrow> Dialect option \<Rightarrow> fatal + int) \<Rightarrow> Dialect option list \<Rightarrow> fatal + Dialect option list) \<Rightarrow>
     ('a, 'e) MLIRContextImpl \<Rightarrow> fatal + Dialect option list" where
  "getLoadedDialects array_pod_sort impl =
     (let result = map snd (loadedDialects impl)
      in array_pod_sort compareNamespaces result)"

text \<open>
  A sort to run \<^verbatim>\<open>getLoadedDialects\<close> with: insertion sort under \<^verbatim>\<open>qsort\<close>'s
  contract for the comparison function, which returns an integer less than, equal to, or
  greater than zero if the first argument is considered to be respectively less than,
  equal to, or greater than the second. An element goes before the first element that it
  is not greater than.
\<close>

fun insert_by :: "('x \<Rightarrow> 'x \<Rightarrow> fatal + int) \<Rightarrow> 'x \<Rightarrow> 'x list \<Rightarrow> fatal + 'x list" where
  "insert_by cmp x [] = Inr [x]"
| "insert_by cmp x (y # ys) =
     (case cmp x y of
        Inl e \<Rightarrow> Inl e
      | Inr c \<Rightarrow>
          (if c \<le> 0 then Inr (x # y # ys)
           else (case insert_by cmp x ys of
                   Inl e \<Rightarrow> Inl e
                 | Inr r \<Rightarrow> Inr (y # r))))"

fun insertion_qsort :: "('x \<Rightarrow> 'x \<Rightarrow> fatal + int) \<Rightarrow> 'x list \<Rightarrow> fatal + 'x list" where
  "insertion_qsort cmp [] = Inr []"
| "insertion_qsort cmp (x # xs) =
     (case insertion_qsort cmp xs of
        Inl e \<Rightarrow> Inl e
      | Inr sorted_xs \<Rightarrow> insert_by cmp x sorted_xs)"

section \<open>Threading\<close>

text \<open>\<^verbatim>\<open>MLIRContext::isMultithreadingEnabled\<close> (lines 692-694).\<close>

definition isMultithreadingEnabled :: "config \<Rightarrow> ('a, 'e) MLIRContextImpl \<Rightarrow> bool" where
  "isMultithreadingEnabled cfg impl = (threadingIsEnabled impl \<and> llvm_is_multithreaded cfg)"

text \<open>
  \<^verbatim>\<open>MLIRContext::disableMultithreading\<close> (lines 697-730). \<open>newPool\<close> is the
  \<^verbatim>\<open>DefaultThreadPool\<close> object that \<^verbatim>\<open>std::make_unique\<close> creates if the call reaches it.
  Beside the context, the result lists the thread pool objects the call destroyed:
  \<^verbatim>\<open>unique_ptr::reset\<close>, and assignment to a \<^verbatim>\<open>unique_ptr\<close>, destroy the object owned
  before. The \<^verbatim>\<open>assert\<close>s are there when \<open>NDEBUG cfg\<close> is false.
\<close>

definition disableMultithreading ::
    "config \<Rightarrow> ThreadPool \<Rightarrow> bool \<Rightarrow> ('a, 'e) MLIRContextImpl \<Rightarrow>
     fatal + (('a, 'e) MLIRContextImpl \<times> ThreadPool list)" where
  "disableMultithreading cfg newPool disable impl =
     (if isThreadingGloballyDisabled cfg then Inr (impl, [])
      else if \<not> NDEBUG cfg \<and> multiThreadedExecutionContext impl \<noteq> 0
      then Inl (AssertionFailure (''changing MLIRContext `disable-threading` configuration while '' @
                  ''in a multi-threaded execution context''))
      else
        (let impl1 = impl\<lparr>threadingIsEnabled := \<not> disable,
                          affineUniquer := StorageUniquer_disableMultithreading disable (affineUniquer impl),
                          attributeUniquer := StorageUniquer_disableMultithreading disable (attributeUniquer impl),
                          typeUniquer := StorageUniquer_disableMultithreading disable (typeUniquer impl)\<rparr>
         in if disable then
              (case ownedThreadPool impl1 of
                 Some owned \<Rightarrow>
                   (if \<not> NDEBUG cfg \<and> threadPool impl1 = None
                    then Inl (AssertionFailure ''impl->threadPool'')
                    else Inr (impl1\<lparr>threadPool := None, ownedThreadPool := None\<rparr>, [owned]))
               | None \<Rightarrow> Inr (impl1, []))
            else if threadPool impl1 = None then
              (if \<not> NDEBUG cfg \<and> ownedThreadPool impl1 \<noteq> None
               then Inl (AssertionFailure ''!impl->ownedThreadPool'')
               else Inr (impl1\<lparr>ownedThreadPool := Some newPool, threadPool := Some newPool\<rparr>,
                         (case ownedThreadPool impl1 of None \<Rightarrow> [] | Some owned \<Rightarrow> [owned])))
            else Inr (impl1, [])))"

text \<open>\<^verbatim>\<open>MLIRContext::enableMultithreading\<close> (MLIRContext.h, lines 209-211).\<close>

definition enableMultithreading ::
    "config \<Rightarrow> ThreadPool \<Rightarrow> bool \<Rightarrow> ('a, 'e) MLIRContextImpl \<Rightarrow>
     fatal + (('a, 'e) MLIRContextImpl \<times> ThreadPool list)" where
  "enableMultithreading cfg newPool enable impl = disableMultithreading cfg newPool (\<not> enable) impl"

text \<open>
  \<^verbatim>\<open>MLIRContext::setThreadPool\<close> (lines 732-738); \<open>pool\<close> is the caller's object. The
  result lists the thread pool objects destroyed, as above.
\<close>

definition setThreadPool ::
    "config \<Rightarrow> ThreadPool \<Rightarrow> ThreadPool \<Rightarrow> ('a, 'e) MLIRContextImpl \<Rightarrow>
     fatal + (('a, 'e) MLIRContextImpl \<times> ThreadPool list)" where
  "setThreadPool cfg newPool pool impl =
     (if \<not> NDEBUG cfg \<and> isMultithreadingEnabled cfg impl
      then Inl (AssertionFailure ''expected multi-threading to be disabled when setting a ThreadPool'')
      else
        (let destroyed = (case ownedThreadPool impl of None \<Rightarrow> [] | Some owned \<Rightarrow> [owned]);
             impl1 = impl\<lparr>threadPool := Some pool, ownedThreadPool := None\<rparr>
         in case enableMultithreading cfg newPool True impl1 of
              Inl e \<Rightarrow> Inl e
            | Inr (impl2, destroyed2) \<Rightarrow> Inr (impl2, destroyed @ destroyed2)))"

text \<open>\<^verbatim>\<open>MLIRContext::enterMultiThreadedExecution\<close> and
  \<^verbatim>\<open>exitMultiThreadedExecution\<close> (lines 758-767): the counter is touched in builds
  without \<^verbatim>\<open>NDEBUG\<close> only.\<close>

definition enterMultiThreadedExecution :: "config \<Rightarrow> ('a, 'e) MLIRContextImpl \<Rightarrow> ('a, 'e) MLIRContextImpl" where
  "enterMultiThreadedExecution cfg impl =
     (if NDEBUG cfg then impl
      else impl\<lparr>multiThreadedExecutionContext := multiThreadedExecutionContext impl + 1\<rparr>)"

definition exitMultiThreadedExecution :: "config \<Rightarrow> ('a, 'e) MLIRContextImpl \<Rightarrow> ('a, 'e) MLIRContextImpl" where
  "exitMultiThreadedExecution cfg impl =
     (if NDEBUG cfg then impl
      else impl\<lparr>multiThreadedExecutionContext := multiThreadedExecutionContext impl - 1\<rparr>)"



section \<open>The context's constructor and the cached instances\<close>

text \<open>
  \<^verbatim>\<open>TypeUniquer::get<T>(ctx, args...)\<close> and \<^verbatim>\<open>AttributeUniquer::get<T>(ctx, args...)\<close>:
  the instance of the key in the context's type, respectively attribute, uniquer.
\<close>

definition TypeUniquer_get :: "TypeKey \<Rightarrow> ('a, 'e) MLIRContextImpl \<Rightarrow> Type \<times> ('a, 'e) MLIRContextImpl" where
  "TypeUniquer_get key impl =
     (let (p, u) = StorageUniquer_get key (typeUniquer impl)
      in (Some p, impl\<lparr>typeUniquer := u\<rparr>))"











datatype Threading = DISABLED | ENABLED







subsection \<open>Accessors\<close>

text \<open>The \<^verbatim>\<open>get\<close> functions of the float types (lines 1117-1170) and
  \<^verbatim>\<open>IndexType::get\<close> (lines 1173-1175) return the member.\<close>

definition Float4E2M1FNType_get :: "('a, 'e) MLIRContextImpl \<Rightarrow> Type" where
  "Float4E2M1FNType_get impl = f4E2M1FNTy impl"

definition Float6E2M3FNType_get :: "('a, 'e) MLIRContextImpl \<Rightarrow> Type" where
  "Float6E2M3FNType_get impl = f6E2M3FNTy impl"

definition Float6E3M2FNType_get :: "('a, 'e) MLIRContextImpl \<Rightarrow> Type" where
  "Float6E3M2FNType_get impl = f6E3M2FNTy impl"

definition Float8E5M2Type_get :: "('a, 'e) MLIRContextImpl \<Rightarrow> Type" where
  "Float8E5M2Type_get impl = f8E5M2Ty impl"

definition Float8E4M3Type_get :: "('a, 'e) MLIRContextImpl \<Rightarrow> Type" where
  "Float8E4M3Type_get impl = f8E4M3Ty impl"

definition Float8E4M3FNType_get :: "('a, 'e) MLIRContextImpl \<Rightarrow> Type" where
  "Float8E4M3FNType_get impl = f8E4M3FNTy impl"

definition Float8E5M2FNUZType_get :: "('a, 'e) MLIRContextImpl \<Rightarrow> Type" where
  "Float8E5M2FNUZType_get impl = f8E5M2FNUZTy impl"

definition Float8E4M3FNUZType_get :: "('a, 'e) MLIRContextImpl \<Rightarrow> Type" where
  "Float8E4M3FNUZType_get impl = f8E4M3FNUZTy impl"

definition Float8E4M3B11FNUZType_get :: "('a, 'e) MLIRContextImpl \<Rightarrow> Type" where
  "Float8E4M3B11FNUZType_get impl = f8E4M3B11FNUZTy impl"

definition Float8E3M4Type_get :: "('a, 'e) MLIRContextImpl \<Rightarrow> Type" where
  "Float8E3M4Type_get impl = f8E3M4Ty impl"

definition Float8E8M0FNUType_get :: "('a, 'e) MLIRContextImpl \<Rightarrow> Type" where
  "Float8E8M0FNUType_get impl = f8E8M0FNUTy impl"

definition BFloat16Type_get :: "('a, 'e) MLIRContextImpl \<Rightarrow> Type" where
  "BFloat16Type_get impl = bf16Ty impl"

definition Float16Type_get :: "('a, 'e) MLIRContextImpl \<Rightarrow> Type" where
  "Float16Type_get impl = f16Ty impl"

definition FloatTF32Type_get :: "('a, 'e) MLIRContextImpl \<Rightarrow> Type" where
  "FloatTF32Type_get impl = tf32Ty impl"

definition Float32Type_get :: "('a, 'e) MLIRContextImpl \<Rightarrow> Type" where
  "Float32Type_get impl = f32Ty impl"

definition Float64Type_get :: "('a, 'e) MLIRContextImpl \<Rightarrow> Type" where
  "Float64Type_get impl = f64Ty impl"

definition Float80Type_get :: "('a, 'e) MLIRContextImpl \<Rightarrow> Type" where
  "Float80Type_get impl = f80Ty impl"

definition Float128Type_get :: "('a, 'e) MLIRContextImpl \<Rightarrow> Type" where
  "Float128Type_get impl = f128Ty impl"




text \<open>\<^verbatim>\<open>NoneType::get\<close> (lines 1221-1227).\<close>

definition NoneType_get :: "('a, 'e) MLIRContextImpl \<Rightarrow> Type \<times> ('a, 'e) MLIRContextImpl" where
  "NoneType_get impl =
     (case noneType impl of
        Some cachedInst \<Rightarrow> (Some cachedInst, impl)
      | None \<Rightarrow> TypeUniquer_get NoneType impl)"



definition UnknownLoc_get :: "('a, 'e) MLIRContextImpl \<Rightarrow> Attribute" where
  "UnknownLoc_get impl = unknownLocAttr impl"


definition StringAttr_get :: "('a, 'e) MLIRContextImpl \<Rightarrow> Attribute" where
  "StringAttr_get impl = emptyStringAttr impl"

section \<open>Operation\<close>

text \<open>
  The header fields of \<^verbatim>\<open>Operation\<close> (Operation.h, lines 1354-1386) that the counts and
  the result addressing read: \<^verbatim>\<open>const unsigned numResults\<close>, \<^verbatim>\<open>const unsigned
  numSuccs\<close> and the bit-field \<^verbatim>\<open>const unsigned numRegions : 23\<close>; \<open>this\<close> is the
  address of the object. \<^verbatim>\<open>unsigned\<close> is 32 bits wide. The other fields (block, location,
  order index, operand storage flag, properties size, name, attributes) are left out.
\<close>

record Operation =
  this :: int
  numResults :: "32 word"
  numSuccs :: "32 word"
  numRegions :: "23 word"

text \<open>\<^verbatim>\<open>getNumResults\<close> (line 590), \<^verbatim>\<open>getNumSuccessors\<close> (line 982),
  \<^verbatim>\<open>getNumRegions\<close> (line 929); each returns \<^verbatim>\<open>unsigned\<close>.\<close>

definition getNumResults :: "Operation \<Rightarrow> 32 word" where
  "getNumResults op = numResults op"

definition getNumSuccessors :: "Operation \<Rightarrow> 32 word" where
  "getNumSuccessors op = numSuccs op"

definition getNumRegions :: "Operation \<Rightarrow> 32 word" where
  "getNumRegions op = ucast (numRegions op)"

text \<open>
  What Operation.h takes from mlir/IR/Value.h, which is not part of these sources, as
  parameters: \<^verbatim>\<open>sizeof(detail::InlineOpResult)\<close>, \<^verbatim>\<open>sizeof(detail::OutOfLineOpResult)\<close>
  and the constant \<^verbatim>\<open>detail::OpResultImpl::getMaxInlineResults()\<close>.
\<close>

record layout =
  sizeofInlineOpResult :: nat
  sizeofOutOfLineOpResult :: nat
  getMaxInlineResults :: "32 word"

text \<open>
  \<^verbatim>\<open>getInlineOpResult\<close> (lines 1317-1321) and \<^verbatim>\<open>getOutOfLineOpResult\<close> (lines
  1308-1314): the address \<^verbatim>\<open>++resultNumber\<close> objects before the operation,
  respectively before the last inline result.
\<close>

definition getInlineOpResult :: "layout \<Rightarrow> Operation \<Rightarrow> 32 word \<Rightarrow> int" where
  "getInlineOpResult L op resultNumber =
     this op - int (unat (resultNumber + 1)) * int (sizeofInlineOpResult L)"

definition getOutOfLineOpResult :: "layout \<Rightarrow> Operation \<Rightarrow> 32 word \<Rightarrow> int" where
  "getOutOfLineOpResult L op resultNumber =
     getInlineOpResult L op (getMaxInlineResults L - 1)
       - int (unat (resultNumber + 1)) * int (sizeofOutOfLineOpResult L)"

text \<open>\<^verbatim>\<open>getOpResultImpl\<close> (lines 1325-1332); the \<^verbatim>\<open>assert\<close> is there when
  \<open>NDEBUG cfg\<close> is false.\<close>

definition getOpResultImpl :: "config \<Rightarrow> layout \<Rightarrow> Operation \<Rightarrow> 32 word \<Rightarrow> fatal + int" where
  "getOpResultImpl cfg L op resultNumber =
     (if \<not> NDEBUG cfg \<and> \<not> resultNumber < getNumResults op
      then Inl (AssertionFailure ''Result number is out of range for operation'')
      else (let maxInlineResults = getMaxInlineResults L
            in if resultNumber < maxInlineResults
               then Inr (getInlineOpResult L op resultNumber)
               else Inr (getOutOfLineOpResult L op (resultNumber - maxInlineResults))))"

text \<open>
  A result object in memory: of either class, with the type of the value it defines and
  the index it stores (an out-of-line result stores its index among the out-of-line
  results).
\<close>

datatype OpResultImpl =
    InlineOpResult Type "32 word"
  | OutOfLineOpResult Type "32 word"

text \<open>
  Modelled from the spec: \<^verbatim>\<open>Operation::create\<close> and the constructor of
  \<^verbatim>\<open>Operation\<close> are declared in Operation.h (lines 144-173, 1277-1280) and defined in
  Operation.cpp, which is not part of these sources; \<^verbatim>\<open>OpResult::getNumInline\<close> and
  \<^verbatim>\<open>getNumTrailing\<close> are declared in Value.h. The spec: one block of memory holds the
  header and all trailing arrays, the results laid out before the header; the first N
  results (N the inline capacity) are stored inline adjacent to the header, the
  remainder out-of-line; the counts are stored in the bit-packed header fields. The
  result is the header of the operation placed at the address \<open>rawMem\<close>, and the result
  objects written before it, by address. Storing in the 23-bit field keeps the low 23
  bits.
\<close>

definition getNumInline :: "layout \<Rightarrow> 32 word \<Rightarrow> 32 word" where
  "getNumInline L n = min (getMaxInlineResults L) n"

definition getNumTrailing :: "layout \<Rightarrow> 32 word \<Rightarrow> 32 word" where
  "getNumTrailing L n = n - getNumInline L n"

definition Operation_create ::
    "layout \<Rightarrow> int \<Rightarrow> Type list \<Rightarrow> 'b list \<Rightarrow> 32 word \<Rightarrow> Operation \<times> (int \<rightharpoonup> OpResultImpl)" where
  "Operation_create L rawMem resultTypes successors regions =
     (let op = \<lparr>this = rawMem,
                numResults = of_nat (length resultTypes),
                numSuccs = of_nat (length successors),
                numRegions = ucast regions\<rparr>;
          numInlineResults = unat (getNumInline L (numResults op));
          numTrailingResults = unat (getNumTrailing L (numResults op))
      in (op,
          map_of
            (map (\<lambda>i. (getInlineOpResult L op (of_nat i),
                       InlineOpResult (resultTypes ! i) (of_nat i)))
                 [0..<numInlineResults] @
             map (\<lambda>i. (getOutOfLineOpResult L op (of_nat i),
                       OutOfLineOpResult (resultTypes ! (numInlineResults + i)) (of_nat i)))
                 [0..<numTrailingResults])))"

section \<open>Predicates of the statements\<close>



text \<open>
  A type whose TypeID is resolved by its name although it is declared in an anonymous
  namespace: the use of \<^verbatim>\<open>TypeID::get\<close> that TypeID.h (lines 152-158) rules out.
\<close>

fun inAnonymousNamespace :: "cpp_type \<Rightarrow> bool" where
  "inAnonymousNamespace (ExternalType n) = False"
| "inAnonymousNamespace (InternalType tu n) = True"

definition anonymousByName :: "(cpp_type \<Rightarrow> resolver) \<Rightarrow> cpp_type \<Rightarrow> bool" where
  "anonymousByName resolverOf T \<longleftrightarrow> resolverOf T = FallbackTypeID \<and> inAnonymousNamespace T"

text \<open>
  The invariant of the state behind \<^verbatim>\<open>TypeID::get\<close>: every registered identity is a
  cell the allocator has handed out, no two names share an identity, an initialised
  static of the fallback resolver holds the registered identity of its type's name, and
  a build with assertions has registered no name of an anonymous namespace.
\<close>

definition typeid_inv :: "config \<Rightarrow> typeid_state \<Rightarrow> bool" where
  "typeid_inv cfg st \<longleftrightarrow>
     (\<forall>n tid. typeNameToID st n = Some tid \<longrightarrow>
        (\<exists>k. tid = TypeID (Allocated k) \<and> k < ids (typeIDAllocator st))) \<and>
     (\<forall>n m tid. typeNameToID st n = Some tid \<longrightarrow> typeNameToID st m = Some tid \<longrightarrow> n = m) \<and>
     (\<forall>T tid. fallbackStatic st T = Some tid \<longrightarrow> typeNameToID st (getTypeName T) = Some tid) \<and>
     (\<not> NDEBUG cfg \<longrightarrow>
        (\<forall>n tid. typeNameToID st n = Some tid \<longrightarrow> \<not> contains ''anonymous namespace'' n))"

text \<open>The identity a state holds for a type, if any.\<close>

definition idOf :: "(cpp_type \<Rightarrow> resolver) \<Rightarrow> typeid_state \<Rightarrow> cpp_type \<Rightarrow> TypeID option" where
  "idOf resolverOf st T =
     (case resolverOf T of
        FallbackTypeID \<Rightarrow> typeNameToID st (getTypeName T)
      | _ \<Rightarrow> Some (TypeID (StaticSlot T)))"

definition st_le :: "typeid_state \<Rightarrow> typeid_state \<Rightarrow> bool" where
  "st_le st st' \<longleftrightarrow> typeNameToID st \<subseteq>\<^sub>m typeNameToID st'"

section \<open>Example inputs\<close>

text \<open>A build with assertions and threads, started without the command line options.\<close>

definition ex_cfg :: config where
  "ex_cfg = \<lparr>NDEBUG = False, LLVM_ENABLE_THREADS = True, clOptions = None\<rparr>"

text \<open>A build with \<^verbatim>\<open>NDEBUG\<close>, where the assertions are compiled out.\<close>

definition ex_cfg_release :: config where
  "ex_cfg_release = \<lparr>NDEBUG = True, LLVM_ENABLE_THREADS = True, clOptions = None\<rparr>"

text \<open>The build with assertions, started with \<^verbatim>\<open>--mlir-disable-threading\<close>.\<close>

definition ex_cfg_flag :: config where
  "ex_cfg_flag =
     \<lparr>NDEBUG = False, LLVM_ENABLE_THREADS = True,
      clOptions = Some \<lparr>disableThreading = True, printOpOnDiagnostic = True,
                        printStackTraceOnDiagnostic = False\<rparr>\<rparr>"

text \<open>A process with no extension to apply and allocators that return null.\<close>

definition ex_ext :: "(unit, unit) externals" where
  "ex_ext = \<lparr>applyExtensionsToDialect = (\<lambda>d c. Inr c),
             applyExtensionsToContext = (\<lambda>r c. Inr c),
             callAllocator = (\<lambda>a c. Inr (None, c))\<rparr>"

text \<open>A process where any call into the parameters ends it.\<close>

definition ex_ext_fatal :: "(unit, unit) externals" where
  "ex_ext_fatal = \<lparr>applyExtensionsToDialect = (\<lambda>d c. Inl NullDereference),
                   applyExtensionsToContext = (\<lambda>r c. Inl NullDereference),
                   callAllocator = (\<lambda>a c. Inl NullDereference)\<rparr>"

definition ex_dialect :: Dialect where
  "ex_dialect = \<lparr>addr = 4096, name = ''test'',
                  dialectID = TypeID (StaticSlot (ExternalType ''TestDialect''))\<rparr>"

definition TestDialect :: "(unit, unit) DialectClass" where
  "TestDialect = \<lparr>getDialectNamespace = ''test'',
                  classTypeID = TypeID (StaticSlot (ExternalType ''TestDialect'')),
                  new = (\<lambda>c. Inr (ex_dialect, c))\<rparr>"

definition builtin_dialect :: Dialect where
  "builtin_dialect = \<lparr>addr = 8192, name = ''builtin'',
                       dialectID = TypeID (StaticSlot (ExternalType ''mlir::BuiltinDialect''))\<rparr>"


text \<open>A context implementation with threading enabled and nothing loaded; one with
  threading disabled; the first while \<^verbatim>\<open>test\<close> is loading; with \<^verbatim>\<open>test\<close> loaded; with \<^verbatim>\<open>builtin\<close> and \<^verbatim>\<open>test\<close>
  loaded.\<close>

definition ex_impl :: "(unit, unit) MLIRContextImpl" where
  "ex_impl = MLIRContextImpl_ctor 1 True"

definition ex_single_threaded :: "(unit, unit) MLIRContextImpl" where
  "ex_single_threaded = MLIRContextImpl_ctor 1 False"

definition ex_loading :: "(unit, unit) MLIRContextImpl" where
  "ex_loading = ex_impl\<lparr>loadedDialects := [(''test'', None)]\<rparr>"

definition ex_loaded :: "(unit, unit) MLIRContextImpl" where
  "ex_loaded = ex_impl\<lparr>loadedDialects := [(''test'', Some ex_dialect)]\<rparr>"

definition ex_two_loaded :: "(unit, unit) MLIRContextImpl" where
  "ex_two_loaded =
     ex_impl\<lparr>loadedDialects := [(''builtin'', Some builtin_dialect), (''test'', Some ex_dialect)]\<rparr>"

text \<open>A registry that knows \<^verbatim>\<open>test\<close>.\<close>

definition ex_registry :: "(unit, unit) DialectRegistry" where
  "ex_registry =
     DialectRegistry_insert (TypeID (StaticSlot (ExternalType ''TestDialect''))) ''test'' ()
       DialectRegistry_ctor"

text \<open>Types for \<^verbatim>\<open>TypeID::get\<close>: \<^verbatim>\<open>void\<close> has an explicit TypeID (TypeID.h, line 412),
  the others resolve by name.\<close>

definition ex_resolverOf :: "cpp_type \<Rightarrow> resolver" where
  "ex_resolverOf T = (if T = ExternalType ''void'' then ExplicitTypeID else FallbackTypeID)"

text \<open>Two translation units that each declare a class \<^verbatim>\<open>Foo\<close> in an anonymous
  namespace.\<close>

definition ex_anonymous :: "cpp_type list" where
  "ex_anonymous = [InternalType 0 ''Foo'', InternalType 1 ''Foo'']"

text \<open>A 64-bit layout: 16 and 24 bytes, 6 inline results.\<close>

definition ex_layout :: layout where
  "ex_layout = \<lparr>sizeofInlineOpResult = 16, sizeofOutOfLineOpResult = 24, getMaxInlineResults = 6\<rparr>"

definition ex_resultTypes :: "Type list" where
  "ex_resultTypes = [Some 10, Some 11, Some 12, Some 13, Some 14, Some 15, Some 16, Some 17]"


chapter \<open>Properties\<close>

section \<open>Loading a dialect\<close>

lemma try_emplace_present:
  "map_of m k = Some w \<Longrightarrow> try_emplace k v m = (m, w, False)"
  by (simp add: try_emplace_def)

lemma try_emplace_absent:
  "map_of m k = None \<Longrightarrow> try_emplace k v m = (m @ [(k, v)], v, True)"
  by (simp add: try_emplace_def)




text \<open>
  Claim C1. Where the table of loaded dialects holds a dialect under the namespace,
  \<^verbatim>\<open>getOrLoadDialect(dialectNamespace, dialectID, ctor)\<close> ends the process with the fatal
  error ``a dialect with namespace '...' has already been registered'' if the TypeID of
  that dialect differs from \<open>dialectId\<close>, and otherwise returns that dialect and leaves
  the context as it was. Neither outcome depends on \<open>ctor\<close>: it is not run.
\<close>

theorem getOrLoadDialect_typeid_mismatch_fatal:
  assumes "map_of (loadedDialects impl) dialectNamespace = Some (Some dialect)"
  shows "getOrLoadDialect cfg ext impl dialectNamespace dialectId ctor =
           (if getTypeID dialect = dialectId then Inr (dialect, impl)
            else Inl (FatalError (''a dialect with namespace '' @ [CHR 0x27] @ dialectNamespace @
                        [CHR 0x27] @ '' has already been registered'')))"
  using assms
  by (cases dialectId; cases "getTypeID dialect")
     (simp add: getOrLoadDialect_def try_emplace_present TypeID_ne_def TypeID_eq_def)

theorem getOrLoadDialect_typeid_mismatch_fatal_witness:
  "map_of (loadedDialects ex_loaded) ''test'' = Some (Some ex_dialect) \<and>
   getOrLoadDialect ex_cfg ex_ext ex_loaded ''test''
       (TypeID (StaticSlot (ExternalType ''OtherDialect''))) (\<lambda>c. Inr (Some builtin_dialect, c))
     = Inl (FatalError (''a dialect with namespace '' @ [CHR 0x27] @ ''test'' @ [CHR 0x27] @
              '' has already been registered'')) \<and>
   getOrLoadDialect ex_cfg ex_ext ex_loaded ''test''
       (TypeID (StaticSlot (ExternalType ''TestDialect''))) (\<lambda>c. Inl NullDereference)
     = Inr (ex_dialect, ex_loaded)"
proof -
  have h: "map_of (loadedDialects ex_loaded) ''test'' = Some (Some ex_dialect)"
    by (simp add: ex_loaded_def)
  have t: "getTypeID ex_dialect = TypeID (StaticSlot (ExternalType ''TestDialect''))"
    by (simp add: getTypeID_def ex_dialect_def)
  show ?thesis
    using h
      getOrLoadDialect_typeid_mismatch_fatal [OF h, of ex_cfg ex_ext
        "TypeID (StaticSlot (ExternalType ''OtherDialect''))" "\<lambda>c. Inr (Some builtin_dialect, c)"]
      getOrLoadDialect_typeid_mismatch_fatal [OF h, of ex_cfg ex_ext
        "TypeID (StaticSlot (ExternalType ''TestDialect''))" "\<lambda>c. Inl NullDereference"]
    by (simp add: t)
qed





lemma isDialectLoading_placeholder:
  "map_of m ns = None \<Longrightarrow> isDialectLoading (impl\<lparr>loadedDialects := m @ [(ns, None)]\<rparr>) ns"
  by (simp add: isDialectLoading_def map_add_def split: option.splits)

lemma getOrLoadDialect_ctor_sees_placeholder:
  "getOrLoadDialect cfg ext impl ns tid ctor =
     getOrLoadDialect cfg ext impl ns tid
       (\<lambda>this. if isDialectLoading this ns then ctor this else Inl NullDereference)"
proof (cases "map_of (loadedDialects impl) ns")
  case None
  then show ?thesis
    by (simp add: getOrLoadDialect_def try_emplace_absent isDialectLoading_placeholder)
next
  case (Some w)
  then show ?thesis
    by (simp add: getOrLoadDialect_def try_emplace_present)
qed

text \<open>
  Claim C3. \<^verbatim>\<open>getOrLoadDialect\<close> runs \<open>ctor\<close> only on a context whose table holds the
  null placeholder under the namespace: replacing \<open>ctor\<close> by one that ends the process
  wherever \<^verbatim>\<open>isDialectLoading\<close> is false changes nothing. \<^verbatim>\<open>isDialectLoading\<close> is true
  exactly when the table has an entry for the namespace and the entry is null. And
  \<^verbatim>\<open>loadDialect<T>()\<close>, called while the namespace of \<open>T\<close> is loading, returns with the
  context unchanged, whatever \<open>T\<close>'s constructor is: \<^verbatim>\<open>getOrLoadDialect\<close> is not called.
\<close>

theorem dialect_loading_placeholder:
  "getOrLoadDialect cfg ext impl dialectNamespace dialectId ctor =
     getOrLoadDialect cfg ext impl dialectNamespace dialectId
       (\<lambda>this. if isDialectLoading this dialectNamespace then ctor this else Inl NullDereference)
   \<and> (isDialectLoading impl dialectNamespace \<longleftrightarrow>
        map_of (loadedDialects impl) dialectNamespace = Some None)
   \<and> (isDialectLoading impl (getDialectNamespace T) \<longrightarrow> loadDialect cfg ext T impl = Inr impl)"
proof (intro conjI impI)
  show "getOrLoadDialect cfg ext impl dialectNamespace dialectId ctor =
     getOrLoadDialect cfg ext impl dialectNamespace dialectId
       (\<lambda>this. if isDialectLoading this dialectNamespace then ctor this else Inl NullDereference)"
    by (rule getOrLoadDialect_ctor_sees_placeholder)
  show "isDialectLoading impl dialectNamespace \<longleftrightarrow>
        map_of (loadedDialects impl) dialectNamespace = Some None"
    by (simp add: isDialectLoading_def split: option.splits)
  show "loadDialect cfg ext T impl = Inr impl" if "isDialectLoading impl (getDialectNamespace T)"
    using that by (simp add: loadDialect_def)
qed

theorem dialect_loading_placeholder_witness:
  "isDialectLoading ex_loading (getDialectNamespace TestDialect) \<and>
   loadDialect ex_cfg ex_ext_fatal (TestDialect\<lparr>new := (\<lambda>c. Inl NullDereference)\<rparr>) ex_loading
     = Inr ex_loading \<and>
   \<not> isDialectLoading ex_loaded ''test'' \<and> \<not> isDialectLoading ex_impl ''test''"
proof -
  have h: "isDialectLoading ex_loading (getDialectNamespace (TestDialect\<lparr>new := (\<lambda>c. Inl NullDereference)\<rparr>))"
    by (simp add: isDialectLoading_def ex_loading_def TestDialect_def)
  from dialect_loading_placeholder [of ex_cfg ex_ext_fatal ex_loading "''test''" "classTypeID TestDialect"
         "\<lambda>c. Inl NullDereference" "TestDialect\<lparr>new := (\<lambda>c. Inl NullDereference)\<rparr>"] h
  have "loadDialect ex_cfg ex_ext_fatal (TestDialect\<lparr>new := (\<lambda>c. Inl NullDereference)\<rparr>) ex_loading
          = Inr ex_loading"
    by blast
  with h show ?thesis
    by (simp add: isDialectLoading_def ex_loaded_def ex_impl_def MLIRContextImpl_ctor_def)
qed

lemma getDialectAllocator_None:
  "getDialectAllocator nm reg = None \<longleftrightarrow> nm \<notin> set (getDialectNames reg)"
  by (auto simp: getDialectAllocator_def getDialectNames_def map_of_eq_None_iff
           split: option.splits prod.splits dest: map_of_SomeD intro: rev_image_eqI)

text \<open>
  Claim C9. For a name with no loaded dialect and no entry in the context's registry,
  \<^verbatim>\<open>getOrLoadDialect(name)\<close> returns \<^verbatim>\<open>nullptr\<close> and leaves the context as it was. More
  generally, where the registry has no allocator for the name, the call returns what
  \<^verbatim>\<open>getLoadedDialect\<close> returns and leaves the context as it was, whatever calling an
  allocator would do: nothing is constructed.
\<close>

theorem getOrLoadDialect_name_unregistered:
  "(getLoadedDialect impl nm = None \<and> nm \<notin> set (getAvailableDialects impl) \<longrightarrow>
      getOrLoadDialect_name ext impl nm = Inr (None, impl))
 \<and> (getDialectAllocator nm (dialectsRegistry impl) = None \<longrightarrow>
      getOrLoadDialect_name ext impl nm = Inr (getLoadedDialect impl nm, impl))"
  by (auto simp: getOrLoadDialect_name_def getAvailableDialects_def
                 getDialectAllocator_None [symmetric]
           split: option.splits)

theorem getOrLoadDialect_name_unregistered_witness:
  "getLoadedDialect ex_loaded ''missing'' = None \<and>
   ''missing'' \<notin> set (getAvailableDialects ex_loaded) \<and>
   getDialectAllocator ''missing'' (dialectsRegistry ex_loaded) = None \<and>
   getOrLoadDialect_name ex_ext_fatal ex_loaded ''missing'' = Inr (None, ex_loaded) \<and>
   getOrLoadDialect_name ex_ext_fatal ex_loaded ''test'' = Inr (Some ex_dialect, ex_loaded)"
proof -
  have h1: "getLoadedDialect ex_loaded ''missing'' = None"
    by (simp add: getLoadedDialect_def ex_loaded_def)
  have h2: "''missing'' \<notin> set (getAvailableDialects ex_loaded)"
    by (simp add: getAvailableDialects_def getDialectNames_def ex_loaded_def ex_impl_def
                  MLIRContextImpl_ctor_def DialectRegistry_ctor_def)
  have h3: "getDialectAllocator nm (dialectsRegistry ex_loaded) = None" for nm
    by (simp add: getDialectAllocator_def ex_loaded_def ex_impl_def
                  MLIRContextImpl_ctor_def DialectRegistry_ctor_def)
  have h4: "getLoadedDialect ex_loaded ''test'' = Some ex_dialect"
    by (simp add: getLoadedDialect_def ex_loaded_def)
  from getOrLoadDialect_name_unregistered [of ex_loaded "''missing''" ex_ext_fatal]
       getOrLoadDialect_name_unregistered [of ex_loaded "''test''" ex_ext_fatal]
       h1 h2 h3 h4
  show ?thesis by simp
qed

section \<open>TypeID\<close>

lemma contains_append: "contains pat (pat @ rest)"
proof (cases "pat @ rest")
  case Nil
  then show ?thesis by simp
next
  case (Cons a list)
  have "take (length pat) (pat @ rest) = pat" by simp
  with Cons show ?thesis by simp
qed

lemma contains_anonymous: "contains ''anonymous namespace'' (getTypeName (InternalType tu n))"
proof -
  have "contains ''anonymous namespace'' (''anonymous namespace'' @ ('')::'' @ n))"
    by (rule contains_append)
  then show ?thesis by simp
qed

lemma typeid_inv_initial: "typeid_inv cfg initial_typeid_state"
  by (simp add: typeid_inv_def initial_typeid_state_def)

lemma registerImplicitTypeID_inv:
  assumes "typeid_inv cfg st" "registerImplicitTypeID cfg n st = Inr (tid, st')"
  shows "typeid_inv cfg st' \<and> st_le st st' \<and> typeNameToID st' n = Some tid \<and>
         fallbackStatic st' = fallbackStatic st"
proof (cases "typeNameToID st n")
  case None
  with assms(2) have nc: "\<not> NDEBUG cfg \<longrightarrow> \<not> contains ''anonymous namespace'' n"
    and st': "st' = st\<lparr>typeNameToID := (typeNameToID st)(n \<mapsto> TypeID (Allocated (ids (typeIDAllocator st)))),
                     typeIDAllocator := (typeIDAllocator st)\<lparr>ids := Suc (ids (typeIDAllocator st))\<rparr>\<rparr>"
    and tid: "tid = TypeID (Allocated (ids (typeIDAllocator st)))"
    by (auto simp: registerImplicitTypeID_def allocate_def split: if_splits)
  have "typeid_inv cfg st'"
    using assms(1) None nc unfolding typeid_inv_def st'
    by (auto simp: less_Suc_eq split: if_splits)
  moreover have "st_le st st'" using None by (auto simp: st_le_def st' map_le_def)
  ultimately show ?thesis using tid by (simp add: st')
next
  case (Some a)
  with assms show ?thesis
    by (auto simp: registerImplicitTypeID_def st_le_def split: if_splits)
qed

lemma TypeID_get_inv:
  assumes "typeid_inv cfg st" "TypeID_get cfg resolverOf T st = Inr (tid, st')"
  shows "typeid_inv cfg st' \<and> st_le st st' \<and> idOf resolverOf st' T = Some tid"
proof (cases "resolverOf T = FallbackTypeID")
  case False
  with assms show ?thesis
    by (cases "resolverOf T")
       (auto simp: TypeID_get_def idOf_def st_le_def resolveTypeID_explicit_def
                   SelfOwningTypeID_getTypeID_def getFromOpaquePointer_def)
next
  case True
  show ?thesis
  proof (cases "fallbackStatic st T")
    case None
    with True assms(2) obtain st1 where
      r: "registerImplicitTypeID cfg (getTypeName T) st = Inr (tid, st1)"
      and st': "st' = st1\<lparr>fallbackStatic := (fallbackStatic st1)(T \<mapsto> tid)\<rparr>"
      by (auto simp: TypeID_get_def resolveTypeID_fallback_def split: sum.splits)
    from registerImplicitTypeID_inv [OF assms(1) r]
    have i1: "typeid_inv cfg st1" and le: "st_le st st1"
      and l: "typeNameToID st1 (getTypeName T) = Some tid" by simp_all
    have "typeid_inv cfg st'"
      using i1 l unfolding typeid_inv_def st' by auto
    moreover have "st_le st st'" using le by (simp add: st_le_def st')
    moreover have "idOf resolverOf st' T = Some tid"
      using True l by (simp add: idOf_def st')
    ultimately show ?thesis by simp
  next
    case (Some a)
    with True assms show ?thesis
      by (auto simp: TypeID_get_def resolveTypeID_fallback_def idOf_def st_le_def typeid_inv_def)
  qed
qed

lemma idOf_mono:
  "st_le st st' \<Longrightarrow> idOf resolverOf st T = Some tid \<Longrightarrow> idOf resolverOf st' T = Some tid"
  by (auto simp: idOf_def st_le_def map_le_def dom_def split: resolver.splits if_splits)

lemma st_le_trans: "st_le a b \<Longrightarrow> st_le b c \<Longrightarrow> st_le a c"
  by (auto simp: st_le_def intro: map_le_trans)

lemma TypeID_gets_inv:
  assumes "typeid_inv cfg st" "TypeID_gets cfg resolverOf Ts st = Inr (tids, st')"
  shows "typeid_inv cfg st' \<and> st_le st st' \<and> length tids = length Ts \<and>
         (\<forall>i < length Ts. idOf resolverOf st' (Ts ! i) = Some (tids ! i))"
  using assms
proof (induction Ts arbitrary: st tids)
  case Nil
  then show ?case by (simp add: st_le_def)
next
  case (Cons T Ts)
  from Cons.prems(2) obtain tid st1 tids' where
    g: "TypeID_get cfg resolverOf T st = Inr (tid, st1)"
    and gs: "TypeID_gets cfg resolverOf Ts st1 = Inr (tids', st')"
    and tids: "tids = tid # tids'"
    by (auto split: sum.splits)
  from TypeID_get_inv [OF Cons.prems(1) g]
  have i1: "typeid_inv cfg st1" and le1: "st_le st st1" and id1: "idOf resolverOf st1 T = Some tid"
    by simp_all
  from Cons.IH [OF i1 gs]
  have i': "typeid_inv cfg st'" and le': "st_le st1 st'" and len: "length tids' = length Ts"
    and ids: "\<forall>i < length Ts. idOf resolverOf st' (Ts ! i) = Some (tids' ! i)" by simp_all
  have "idOf resolverOf st' T = Some tid" using idOf_mono [OF le' id1] .
  with ids have "\<forall>i < length (T # Ts). idOf resolverOf st' ((T # Ts) ! i) = Some (tids ! i)"
    by (auto simp: tids nth_Cons split: nat.splits)
  with i' st_le_trans [OF le1 le'] len show ?case by (simp add: tids)
qed

lemma external_type_name:
  "\<not> inAnonymousNamespace T \<Longrightarrow> T = ExternalType (getTypeName T)"
  by (cases T) simp_all

lemma named_type_external:
  "\<not> contains ''anonymous namespace'' (getTypeName T) \<Longrightarrow> \<not> inAnonymousNamespace T"
  by (cases T) (auto simp: contains_anonymous simp del: getTypeName.simps(2))

lemma idOf_inj:
  assumes inv: "typeid_inv cfg st"
    and a: "idOf resolverOf st A = Some a" and b: "idOf resolverOf st B = Some a"
    and usage: "NDEBUG cfg \<longrightarrow> \<not> anonymousByName resolverOf A \<and> \<not> anonymousByName resolverOf B"
  shows "A = B"
proof (cases "resolverOf A = FallbackTypeID")
  case fa: True
  show ?thesis
  proof (cases "resolverOf B = FallbackTypeID")
    case fb: True
    from fa fb a b have na: "typeNameToID st (getTypeName A) = Some a"
      and nb: "typeNameToID st (getTypeName B) = Some a"
      by (simp_all add: idOf_def)
    with inv have eq: "getTypeName A = getTypeName B"
      unfolding typeid_inv_def by blast
    have "\<not> inAnonymousNamespace A \<and> \<not> inAnonymousNamespace B"
    proof (cases "NDEBUG cfg")
      case True
      with usage fa fb show ?thesis by (simp add: anonymousByName_def)
    next
      case False
      with inv na nb have "\<not> contains ''anonymous namespace'' (getTypeName A)"
        and "\<not> contains ''anonymous namespace'' (getTypeName B)"
        unfolding typeid_inv_def by blast+
      then show ?thesis by (simp add: named_type_external)
    qed
    then have "A = ExternalType (getTypeName A)" and "B = ExternalType (getTypeName B)"
      by (simp_all add: external_type_name)
    with eq show ?thesis by simp
  next
    case False
    with fa inv a b show ?thesis
      by (cases "resolverOf B") (auto simp: idOf_def typeid_inv_def)
  qed
next
  case na: False
  show ?thesis
  proof (cases "resolverOf B = FallbackTypeID")
    case True
    with na inv a b show ?thesis
      by (cases "resolverOf A") (auto simp: idOf_def typeid_inv_def)
  next
    case False
    with na a b show ?thesis
      by (cases "resolverOf A"; cases "resolverOf B") (auto simp: idOf_def)
  qed
qed

text \<open>
  Claim C6, as amended. In a run of calls \<^verbatim>\<open>TypeID::get<T>()\<close> from the start of the
  process, no call of which ends the process, two calls for the same type return equal
  TypeIDs. Two calls return equal TypeIDs only if they are calls for the same type,
  provided that, in a build with \<^verbatim>\<open>NDEBUG\<close>, neither of the two types is a type of an
  anonymous namespace whose TypeID is resolved by its name. And two TypeIDs compare
  equal with \<^verbatim>\<open>operator==\<close> exactly when their storage pointers are equal.
\<close>

theorem TypeID_get_identity:
  assumes "TypeID_gets cfg resolverOf Ts initial_typeid_state = Inr (tids, st)"
    and "i < length Ts" and "j < length Ts"
  shows "(Ts ! i = Ts ! j \<longrightarrow> TypeID_eq (tids ! i) (tids ! j)) \<and>
         ((NDEBUG cfg \<longrightarrow> \<not> anonymousByName resolverOf (Ts ! i) \<and>
                                \<not> anonymousByName resolverOf (Ts ! j)) \<longrightarrow>
            (TypeID_eq (tids ! i) (tids ! j) \<longleftrightarrow> Ts ! i = Ts ! j) \<and>
            (TypeID_ne (tids ! i) (tids ! j) \<longleftrightarrow> Ts ! i \<noteq> Ts ! j)) \<and>
         (TypeID_eq a b \<longleftrightarrow> storage a = storage b)"
proof -
  from TypeID_gets_inv [OF typeid_inv_initial assms(1)]
  have inv: "typeid_inv cfg st"
    and ids: "\<forall>i < length Ts. idOf resolverOf st (Ts ! i) = Some (tids ! i)"
    by simp_all
  from ids assms(2,3) have i: "idOf resolverOf st (Ts ! i) = Some (tids ! i)"
    and j: "idOf resolverOf st (Ts ! j) = Some (tids ! j)" by simp_all
  have eq: "TypeID_eq (tids ! i) (tids ! j) \<longleftrightarrow> tids ! i = tids ! j"
    by (cases "tids ! i"; cases "tids ! j") (simp add: TypeID_eq_def)
  have same: "tids ! i = tids ! j" if "Ts ! i = Ts ! j"
    using i j that by simp
  have distinct: "Ts ! i = Ts ! j"
    if "NDEBUG cfg \<longrightarrow> \<not> anonymousByName resolverOf (Ts ! i) \<and>
                          \<not> anonymousByName resolverOf (Ts ! j)"
      and "tids ! i = tids ! j"
    using idOf_inj [OF inv i, of "Ts ! j"] j that by simp
  from same distinct eq show ?thesis by (auto simp: TypeID_eq_def TypeID_ne_def)
qed

text \<open>
  The claim as stated fails in a build with \<^verbatim>\<open>NDEBUG\<close>: the two classes \<^verbatim>\<open>Foo\<close> of
  two anonymous namespaces are distinct types, both resolved by the name
  \<^verbatim>\<open>(anonymous namespace)::Foo\<close>, and get the same TypeID.
\<close>

theorem TypeID_get_anonymous_collision:
  "map_sum id fst (TypeID_gets ex_cfg_release (\<lambda>T. FallbackTypeID) ex_anonymous initial_typeid_state)
     = Inr [TypeID (Allocated 0), TypeID (Allocated 0)]
   \<and> ex_anonymous ! 0 \<noteq> ex_anonymous ! 1
   \<and> TypeID_eq (TypeID (Allocated 0)) (TypeID (Allocated 0))"
  by (simp add: ex_anonymous_def ex_cfg_release_def TypeID_get_def resolveTypeID_fallback_def
        registerImplicitTypeID_def allocate_def initial_typeid_state_def TypeID_eq_def)

theorem TypeID_get_identity_witness:
  "(\<exists>st. TypeID_gets ex_cfg_release ex_resolverOf
            [ExternalType ''mlir::ModuleOp'', ExternalType ''mlir::FuncOp'',
             ExternalType ''void'', ExternalType ''mlir::ModuleOp'']
            initial_typeid_state
          = Inr ([TypeID (Allocated 0), TypeID (Allocated 1),
                  TypeID (StaticSlot (ExternalType ''void'')), TypeID (Allocated 0)], st)) \<and>
   \<not> anonymousByName ex_resolverOf (ExternalType ''mlir::ModuleOp'') \<and>
   \<not> anonymousByName ex_resolverOf (ExternalType ''mlir::FuncOp'') \<and>
   \<not> anonymousByName ex_resolverOf (ExternalType ''void'') \<and>
   TypeID_eq (TypeID (Allocated 0)) (TypeID (Allocated 0)) \<and>
   TypeID_ne (TypeID (Allocated 0)) (TypeID (Allocated 1)) \<and>
   TypeID_ne (TypeID (Allocated 1)) (TypeID (StaticSlot (ExternalType ''void'')))"
proof -
  let ?Ts = "[ExternalType ''mlir::ModuleOp'', ExternalType ''mlir::FuncOp'',
              ExternalType ''void'', ExternalType ''mlir::ModuleOp'']"
  let ?tids = "[TypeID (Allocated 0), TypeID (Allocated 1),
                TypeID (StaticSlot (ExternalType ''void'')), TypeID (Allocated 0)]"
  have run: "\<exists>st. TypeID_gets ex_cfg_release ex_resolverOf ?Ts initial_typeid_state = Inr (?tids, st)"
    by (simp add: TypeID_get_def ex_resolverOf_def resolveTypeID_fallback_def
          resolveTypeID_explicit_def SelfOwningTypeID_getTypeID_def getFromOpaquePointer_def
          registerImplicitTypeID_def allocate_def initial_typeid_state_def ex_cfg_release_def)
  then obtain st where
    r: "TypeID_gets ex_cfg_release ex_resolverOf ?Ts initial_typeid_state = Inr (?tids, st)" ..
  have u: "\<not> anonymousByName ex_resolverOf (ExternalType ''mlir::ModuleOp'')"
    "\<not> anonymousByName ex_resolverOf (ExternalType ''mlir::FuncOp'')"
    "\<not> anonymousByName ex_resolverOf (ExternalType ''void'')"
    by (simp_all add: anonymousByName_def)
  from TypeID_get_identity [OF r, of 0 3]
  have "TypeID_eq (TypeID (Allocated 0)) (TypeID (Allocated 0))"
    by simp
  moreover from TypeID_get_identity [OF r, of 0 1] u
  have "TypeID_ne (TypeID (Allocated 0)) (TypeID (Allocated 1))"
    by simp
  moreover from TypeID_get_identity [OF r, of 1 2] u
  have "TypeID_ne (TypeID (Allocated 1)) (TypeID (StaticSlot (ExternalType ''void'')))"
    by simp
  ultimately show ?thesis using run u by blast
qed

section \<open>The dialect registry\<close>

lemma insert_registry_keys:
  "fst ` set (registry (DialectRegistry_insert t n c d)) = insert n (fst ` set (registry d))"
proof (cases "map_of (registry d) n")
  case None
  then show ?thesis by (simp add: DialectRegistry_insert_def set_insort_key)
next
  case (Some a)
  then have "n \<in> fst ` set (registry d)" by (metis map_of_eq_None_iff option.distinct(1))
  with Some show ?thesis by (auto simp: DialectRegistry_insert_def)
qed

lemma insert_extensions:
  "extensions (DialectRegistry_insert t n c d) = extensions d"
  by (simp add: DialectRegistry_insert_def split: option.splits)

lemma try_emplace_keys:
  "fst ` set (fst (try_emplace k v m)) = insert k (fst ` set m)"
proof (cases "map_of m k")
  case None
  then show ?thesis by (simp add: try_emplace_def)
next
  case (Some a)
  then have "k \<in> fst ` set m" by (metis map_of_eq_None_iff option.distinct(1))
  with Some show ?thesis by (auto simp: try_emplace_def)
qed

lemma fold_insert_keys:
  "fst ` set (registry (fold (\<lambda>it dest. DialectRegistry_insert (fst (snd it)) (fst it) (snd (snd it)) dest) xs d))
     = fst ` set xs \<union> fst ` set (registry d)"
  by (induction xs arbitrary: d) (auto simp: insert_registry_keys)

lemma fold_insert_extensions:
  "extensions (fold (\<lambda>it dest. DialectRegistry_insert (fst (snd it)) (fst it) (snd (snd it)) dest) xs d)
     = extensions d"
  by (induction xs arbitrary: d) (auto simp: insert_extensions)

lemma fold_emplace_registry:
  "registry (fold (\<lambda>extension dest.
               dest\<lparr>extensions := fst (try_emplace (fst extension) (snd extension) (extensions dest))\<rparr>) xs d)
     = registry d"
  by (induction xs arbitrary: d) auto

lemma fold_emplace_keys:
  "fst ` set (extensions (fold (\<lambda>extension dest.
               dest\<lparr>extensions := fst (try_emplace (fst extension) (snd extension) (extensions dest))\<rparr>) xs d))
     = fst ` set xs \<union> fst ` set (extensions d)"
  by (induction xs arbitrary: d) (auto simp: try_emplace_keys)

lemma isSubsetOf_keys:
  "isSubsetOf A B \<longleftrightarrow>
     fst ` set (extensions A) \<subseteq> fst ` set (extensions B) \<and>
     fst ` set (registry A) \<subseteq> fst ` set (registry B)"
  by (auto simp: isSubsetOf_def list_all_iff map_of_eq_None_iff)

lemma isSubsetOf_refl: "isSubsetOf R R"
  by (simp add: isSubsetOf_keys)

lemma isSubsetOf_appendTo: "isSubsetOf A (appendTo A B)"
  by (simp add: isSubsetOf_keys appendTo_def Let_def fold_emplace_keys fold_insert_keys
        fold_emplace_registry fold_insert_extensions)

text \<open>
  Claim C7. Every registry is a subset of itself; after \<^verbatim>\<open>A.appendTo(B)\<close>, \<open>A\<close> is a
  subset of the destination; and \<^verbatim>\<open>appendDialectRegistry(registry)\<close>, called with a
  registry that is a subset of the context's, returns with the context unchanged (its
  registry included) whatever applying extensions would do: no extension is applied.
\<close>

theorem DialectRegistry_subset_laws:
  "isSubsetOf R R \<and> isSubsetOf A (appendTo A B) \<and>
   (isSubsetOf reg (dialectsRegistry impl) \<longrightarrow> appendDialectRegistry cfg ext reg impl = Inr impl)"
  by (simp add: isSubsetOf_refl isSubsetOf_appendTo appendDialectRegistry_def)

theorem DialectRegistry_subset_laws_witness:
  "isSubsetOf ex_registry (dialectsRegistry (ex_impl\<lparr>dialectsRegistry := appendTo ex_registry DialectRegistry_ctor\<rparr>)) \<and>
   appendDialectRegistry ex_cfg ex_ext_fatal ex_registry
       (ex_impl\<lparr>dialectsRegistry := appendTo ex_registry DialectRegistry_ctor\<rparr>)
     = Inr (ex_impl\<lparr>dialectsRegistry := appendTo ex_registry DialectRegistry_ctor\<rparr>) \<and>
   \<not> isSubsetOf ex_registry (dialectsRegistry ex_impl) \<and>
   getDialectNames (appendTo ex_registry DialectRegistry_ctor) = [''test'']"
proof -
  let ?impl = "ex_impl\<lparr>dialectsRegistry := appendTo ex_registry (DialectRegistry_ctor :: (unit, unit) DialectRegistry)\<rparr>"
  have laws: "isSubsetOf ex_registry (appendTo ex_registry DialectRegistry_ctor) \<and>
      (isSubsetOf ex_registry (dialectsRegistry ?impl) \<longrightarrow>
         appendDialectRegistry ex_cfg ex_ext_fatal ex_registry ?impl = Inr ?impl)"
    using DialectRegistry_subset_laws [of ex_registry ex_registry DialectRegistry_ctor ex_registry ?impl
            ex_cfg ex_ext_fatal]
    by blast
  have h: "isSubsetOf ex_registry (dialectsRegistry ?impl)"
    using laws by simp
  have n: "\<not> isSubsetOf ex_registry (dialectsRegistry ex_impl)"
    by (simp add: isSubsetOf_def ex_registry_def DialectRegistry_insert_def DialectRegistry_ctor_def
          ex_impl_def MLIRContextImpl_ctor_def)
  have g: "getDialectNames (appendTo ex_registry (DialectRegistry_ctor :: (unit, unit) DialectRegistry)) = [''test'']"
    by (simp add: getDialectNames_def appendTo_def ex_registry_def DialectRegistry_insert_def
          DialectRegistry_ctor_def)
  from laws h n g show ?thesis by blast
qed

section \<open>Threading\<close>

text \<open>
  Claim C8. Where threading is globally disabled (as it is once the
  \<^verbatim>\<open>--mlir-disable-threading\<close> flag is set), \<^verbatim>\<open>disableMultithreading\<close> returns with the
  context unchanged and destroys nothing. Otherwise, if it returns:
  \<^verbatim>\<open>disableMultithreading(true)\<close> leaves no owned pool, destroys exactly the pool the
  context owned, if any, with the pool pointer reset to null, and leaves the pool pointer
  as it was if the context owned none (an external pool is not touched);
  \<^verbatim>\<open>disableMultithreading(false)\<close> installs a new owned pool if the pool pointer was
  null, and otherwise changes neither pointer and destroys nothing. \<^verbatim>\<open>setThreadPool\<close>,
  when it returns, has installed the caller's pool with no owned pool, and has not
  destroyed the caller's pool; in a build with assertions, calling it while
  multithreading is enabled is an assertion failure.
\<close>

theorem disableMultithreading_thread_pool:
  "(isThreadingGloballyDisabled cfg \<longrightarrow>
      disableMultithreading cfg newPool disable impl = Inr (impl, []))
 \<and> (disableMultithreading cfg newPool True impl = Inr (impl', destroyed) \<and>
      \<not> isThreadingGloballyDisabled cfg \<longrightarrow>
        ownedThreadPool impl' = None \<and>
        destroyed = (case ownedThreadPool impl of None \<Rightarrow> [] | Some owned \<Rightarrow> [owned]) \<and>
        threadPool impl' = (case ownedThreadPool impl of None \<Rightarrow> threadPool impl | Some owned \<Rightarrow> None))
 \<and> (disableMultithreading cfg newPool False impl = Inr (impl'', destroyed'') \<and>
      \<not> isThreadingGloballyDisabled cfg \<longrightarrow>
        (if threadPool impl = None
         then threadPool impl'' = Some newPool \<and> ownedThreadPool impl'' = Some newPool
         else threadPool impl'' = threadPool impl \<and> ownedThreadPool impl'' = ownedThreadPool impl \<and>
              destroyed'' = []))
 \<and> (setThreadPool cfg newPool pool impl = Inr (impl3, destroyed3) \<and>
      ownedThreadPool impl \<noteq> Some pool \<longrightarrow>
        threadPool impl3 = Some pool \<and> ownedThreadPool impl3 = None \<and> pool \<notin> set destroyed3)
 \<and> (\<not> NDEBUG cfg \<and> isMultithreadingEnabled cfg impl \<longrightarrow>
        (\<exists>msg. setThreadPool cfg newPool pool impl = Inl (AssertionFailure msg)))"
proof (intro conjI impI)
  assume "isThreadingGloballyDisabled cfg"
  then show "disableMultithreading cfg newPool disable impl = Inr (impl, [])"
    by (simp add: disableMultithreading_def)
next
  assume a: "disableMultithreading cfg newPool True impl = Inr (impl', destroyed) \<and>
             \<not> isThreadingGloballyDisabled cfg"
  then show "ownedThreadPool impl' = None"
    by (auto simp: disableMultithreading_def Let_def split: if_splits option.splits)
  from a show "destroyed = (case ownedThreadPool impl of None \<Rightarrow> [] | Some owned \<Rightarrow> [owned])"
    by (auto simp: disableMultithreading_def Let_def split: if_splits option.splits)
  from a show "threadPool impl' =
                 (case ownedThreadPool impl of None \<Rightarrow> threadPool impl | Some owned \<Rightarrow> None)"
    by (auto simp: disableMultithreading_def Let_def split: if_splits option.splits)
next
  assume "disableMultithreading cfg newPool False impl = Inr (impl'', destroyed'') \<and>
          \<not> isThreadingGloballyDisabled cfg"
  then show "if threadPool impl = None
        then threadPool impl'' = Some newPool \<and> ownedThreadPool impl'' = Some newPool
        else threadPool impl'' = threadPool impl \<and> ownedThreadPool impl'' = ownedThreadPool impl \<and>
             destroyed'' = []"
    by (auto simp: disableMultithreading_def Let_def split: if_splits option.splits)
next
  assume a: "setThreadPool cfg newPool pool impl = Inr (impl3, destroyed3) \<and>
             ownedThreadPool impl \<noteq> Some pool"
  then show "threadPool impl3 = Some pool"
    by (auto simp: setThreadPool_def enableMultithreading_def disableMultithreading_def Let_def
             split: if_splits option.splits sum.splits)
  from a show "ownedThreadPool impl3 = None"
    by (auto simp: setThreadPool_def enableMultithreading_def disableMultithreading_def Let_def
             split: if_splits option.splits sum.splits)
  from a show "pool \<notin> set destroyed3"
    by (auto simp: setThreadPool_def enableMultithreading_def disableMultithreading_def Let_def
             split: if_splits option.splits sum.splits)
next
  assume "\<not> NDEBUG cfg \<and> isMultithreadingEnabled cfg impl"
  then show "\<exists>msg. setThreadPool cfg newPool pool impl = Inl (AssertionFailure msg)"
    by (simp add: setThreadPool_def)
qed

theorem disableMultithreading_thread_pool_witness:
  "isThreadingGloballyDisabled ex_cfg_flag \<and>
   disableMultithreading ex_cfg_flag 2 True ex_impl = Inr (ex_impl, []) \<and>
   \<not> isThreadingGloballyDisabled ex_cfg \<and>
   (\<exists>impl'. disableMultithreading ex_cfg 2 True ex_impl = Inr (impl', [1]) \<and>
             threadPool impl' = None \<and> ownedThreadPool impl' = None) \<and>
   (\<exists>impl''. disableMultithreading ex_cfg 2 False ex_single_threaded = Inr (impl'', []) \<and>
              threadPool impl'' = Some 2 \<and> ownedThreadPool impl'' = Some 2) \<and>
   (\<exists>impl3. setThreadPool ex_cfg 2 7 ex_single_threaded = Inr (impl3, []) \<and>
             threadPool impl3 = Some 7 \<and> ownedThreadPool impl3 = None \<and>
             (\<exists>impl4. disableMultithreading ex_cfg 2 True impl3 = Inr (impl4, []) \<and>
                       threadPool impl4 = Some 7 \<and> ownedThreadPool impl4 = None)) \<and>
   \<not> NDEBUG ex_cfg \<and> isMultithreadingEnabled ex_cfg ex_impl \<and>
   (\<exists>msg. setThreadPool ex_cfg 2 7 ex_impl = Inl (AssertionFailure msg))"
proof -
  note ev = disableMultithreading_def setThreadPool_def enableMultithreading_def
    isThreadingGloballyDisabled_def isMultithreadingEnabled_def llvm_is_multithreaded_def
    ex_cfg_def ex_cfg_flag_def ex_impl_def ex_single_threaded_def MLIRContextImpl_ctor_def Let_def
  have g: "isThreadingGloballyDisabled ex_cfg_flag" and ng: "\<not> isThreadingGloballyDisabled ex_cfg"
    and nd: "\<not> NDEBUG ex_cfg" and en: "isMultithreadingEnabled ex_cfg ex_impl"
    by (simp_all add: ev)
  have w1: "disableMultithreading ex_cfg_flag 2 True ex_impl = Inr (ex_impl, [])"
    using disableMultithreading_thread_pool [of ex_cfg_flag 2 True ex_impl] g by blast
  have "\<exists>impl'. disableMultithreading ex_cfg 2 True ex_impl = Inr (impl', [1])"
    by (simp add: ev)
  then obtain impl' where r2: "disableMultithreading ex_cfg 2 True ex_impl = Inr (impl', [1])" ..
  have o: "ownedThreadPool ex_impl = Some 1" by (simp add: ev)
  from disableMultithreading_thread_pool [of ex_cfg 2 True ex_impl impl' "[1]"] r2 ng o
  have w2: "threadPool impl' = None \<and> ownedThreadPool impl' = None" by simp
  have "\<exists>impl''. disableMultithreading ex_cfg 2 False ex_single_threaded = Inr (impl'', [])"
    by (simp add: ev)
  then obtain impl'' where
    r3: "disableMultithreading ex_cfg 2 False ex_single_threaded = Inr (impl'', [])" ..
  have p: "threadPool ex_single_threaded = None" "ownedThreadPool ex_single_threaded = None"
    by (simp_all add: ev)
  from disableMultithreading_thread_pool [of ex_cfg 2 True ex_single_threaded _ _ impl'' "[]"] r3 ng p
  have w3: "threadPool impl'' = Some 2 \<and> ownedThreadPool impl'' = Some 2" by simp
  have "\<exists>impl3. setThreadPool ex_cfg 2 7 ex_single_threaded = Inr (impl3, [])"
    by (simp add: ev)
  then obtain impl3 where r4: "setThreadPool ex_cfg 2 7 ex_single_threaded = Inr (impl3, [])" ..
  from disableMultithreading_thread_pool [of ex_cfg 2 True ex_single_threaded _ _ _ _ 7 impl3 "[]"] r4 p
  have w4: "threadPool impl3 = Some 7 \<and> ownedThreadPool impl3 = None" by simp
  have "\<exists>impl4 d. disableMultithreading ex_cfg 2 True impl3 = Inr (impl4, d)"
    using w4 r4
    by (auto simp: ev split: if_splits sum.splits)
  then obtain impl4 d where r5: "disableMultithreading ex_cfg 2 True impl3 = Inr (impl4, d)" by blast
  from disableMultithreading_thread_pool [of ex_cfg 2 True impl3 impl4 d] r5 ng w4
  have w5: "d = [] \<and> threadPool impl4 = Some 7 \<and> ownedThreadPool impl4 = None" by simp
  from disableMultithreading_thread_pool [of ex_cfg 2 True ex_impl _ _ _ _ 7] nd en
  have w6: "\<exists>msg. setThreadPool ex_cfg 2 7 ex_impl = Inl (AssertionFailure msg)" by blast
  from g w1 ng r2 w2 r3 w3 r4 w4 r5 w5 nd en w6 show ?thesis by blast
qed

section \<open>The cached instances\<close>









lemma fold_frame:
  assumes "\<forall>stmt \<in> set stmts. \<forall>x. part (stmt x) = part x"
  shows "part (fold (\<lambda>stmt. stmt) stmts s) = part s"
  using assms by (induction stmts arbitrary: s) auto

































section \<open>Operation\<close>

lemma unat_of_nat32: "k < 2 ^ 32 \<Longrightarrow> unat (of_nat k :: 32 word) = k"
  by (simp add: unat_of_nat take_bit_nat_eq_self)

lemma unat_of_nat_succ32: "Suc k < 2 ^ 32 \<Longrightarrow> unat (of_nat k + 1 :: 32 word) = Suc k"
proof -
  assume a: "Suc k < 2 ^ 32"
  have "of_nat k + 1 = (of_nat (Suc k) :: 32 word)" by simp
  then show ?thesis using a unat_of_nat32 by metis
qed

lemma unat_max_minus_one_plus_one: "unat ((M :: 32 word) - 1 + 1) = unat M"
  by simp

lemma getInlineOpResult_addr:
  "Suc i < 2 ^ 32 \<Longrightarrow>
   getInlineOpResult L op (of_nat i) = this op - int (Suc i) * int (sizeofInlineOpResult L)"
  by (simp only: getInlineOpResult_def unat_of_nat_succ32)

lemma getOutOfLineOpResult_addr:
  "Suc j < 2 ^ 32 \<Longrightarrow>
   getOutOfLineOpResult L op (of_nat j) =
     this op - int (unat (getMaxInlineResults L)) * int (sizeofInlineOpResult L)
             - int (Suc j) * int (sizeofOutOfLineOpResult L)"
  by (simp only: getOutOfLineOpResult_def getInlineOpResult_def unat_of_nat_succ32 unat_max_minus_one_plus_one)

lemma map_of_map_upt_hit:
  assumes "inj_on f (set xs)" "i \<in> set xs"
  shows "map_of (map (\<lambda>i. (f i, g i)) xs) (f i) = Some (g i)"
  using assms by (induction xs) (auto simp: inj_on_def)

lemma map_of_map_upt_miss:
  assumes "k \<notin> f ` set xs"
  shows "map_of (map (\<lambda>i. (f i, g i)) xs) k = None"
  using assms by (induction xs) auto

lemma getNumRegions_create:
  assumes "regions < 2 ^ 23"
  shows "getNumRegions (fst (Operation_create L rawMem resultTypes successors regions)) = regions"
proof -
  have "unat regions < 2 ^ 23" using assms by (simp add: word_less_nat_alt)
  then have "ucast (ucast regions :: 23 word) = regions"
    by (simp add: word_eq_iff_unsigned [where ?'a = nat] unsigned_ucast_eq unsigned_take_bit_eq take_bit_nat_eq_self)
  then show ?thesis by (simp add: Operation_create_def getNumRegions_def Let_def)
qed

lemma Operation_create_result:
  fixes resultTypes :: "Type list"
  assumes R: "length resultTypes < 2 ^ 32"
    and sI: "0 < sizeofInlineOpResult L" and sO: "0 < sizeofOutOfLineOpResult L"
    and cr: "Operation_create L rawMem resultTypes successors regions = (op, mem)"
    and i: "i < length resultTypes"
  shows "getOpResultImpl cfg L op (of_nat i) =
           Inr (if i < unat (getMaxInlineResults L) then getInlineOpResult L op (of_nat i)
                else getOutOfLineOpResult L op (of_nat (i - unat (getMaxInlineResults L))))
       \<and> mem (if i < unat (getMaxInlineResults L) then getInlineOpResult L op (of_nat i)
                else getOutOfLineOpResult L op (of_nat (i - unat (getMaxInlineResults L))))
          = Some (if i < unat (getMaxInlineResults L) then InlineOpResult (resultTypes ! i) (of_nat i)
                  else OutOfLineOpResult (resultTypes ! i) (of_nat (i - unat (getMaxInlineResults L))))"
proof -
  define m where "m = unat (getMaxInlineResults L)"
  define nR :: "32 word" where "nR = of_nat (length resultTypes)"
  define nI where "nI = min m (length resultTypes)"
  define nT where "nT = length resultTypes - nI"
  define aI where "aI = (\<lambda>k. rawMem - int (Suc k) * int (sizeofInlineOpResult L))"
  define aO where "aO = (\<lambda>k. rawMem - int m * int (sizeofInlineOpResult L)
                               - int (Suc k) * int (sizeofOutOfLineOpResult L))"
  have unR: "unat nR = length resultTypes" using R by (simp add: nR_def unat_of_nat32)
  have M: "getMaxInlineResults L = of_nat m" by (simp add: m_def)
  have m32: "m < 2 ^ 32" using unsigned_less [of "getMaxInlineResults L"] by (simp add: m_def)
  have op: "this op = rawMem" "numResults op = nR"
    using cr by (auto simp: Operation_create_def Let_def nR_def)
  have unI: "unat (getNumInline L nR) = nI"
    by (simp add: getNumInline_def nI_def m_def unR [symmetric] min_def word_le_nat_alt)
  have unT: "unat (getNumTrailing L nR) = nT"
  proof -
    have "getNumInline L nR \<le> nR" by (simp add: getNumInline_def)
    then show ?thesis by (simp add: getNumTrailing_def unat_sub unI unR nT_def)
  qed
  have addrI: "getInlineOpResult L op (of_nat k) = aI k" if "k < length resultTypes" for k
    using that R by (simp add: getInlineOpResult_addr op aI_def)
  have addrO: "getOutOfLineOpResult L op (of_nat k) = aO k" if "k < length resultTypes" for k
    using that R by (simp add: getOutOfLineOpResult_addr op aO_def m_def)
  let ?inl = "map (\<lambda>k. (aI k, InlineOpResult (resultTypes ! k) (of_nat k))) [0..<nI]"
  let ?out = "map (\<lambda>k. (aO k, OutOfLineOpResult (resultTypes ! (nI + k)) (of_nat k))) [0..<nT]"
  have mem: "mem = map_of (?inl @ ?out)"
  proof -
    have 1: "map (\<lambda>k. (getInlineOpResult L op (of_nat k), InlineOpResult (resultTypes ! k) (of_nat k))) [0..<nI] = ?inl"
      by (rule map_cong) (auto simp: addrI nI_def)
    have 2: "map (\<lambda>k. (getOutOfLineOpResult L op (of_nat k), OutOfLineOpResult (resultTypes ! (nI + k)) (of_nat k))) [0..<nT] = ?out"
      by (rule map_cong) (auto simp: addrO nT_def)
    from cr have "mem = map_of
            (map (\<lambda>i. (getInlineOpResult L op (of_nat i), InlineOpResult (resultTypes ! i) (of_nat i)))
                 [0..<unat (getNumInline L (numResults op))] @
             map (\<lambda>i. (getOutOfLineOpResult L op (of_nat i),
                       OutOfLineOpResult (resultTypes ! (unat (getNumInline L (numResults op)) + i)) (of_nat i)))
                 [0..<unat (getNumTrailing L (numResults op))])"
      by (auto simp: Operation_create_def Let_def)
    then show ?thesis by (simp only: op unI unT 1 2)
  qed
  have injI: "inj_on aI (set [0..<nI])" using sI by (auto simp: inj_on_def aI_def)
  have injO: "inj_on aO (set [0..<nT])" using sO by (auto simp: inj_on_def aO_def)
  have lt: "of_nat i < nR" using i R by (simp add: word_less_nat_alt unR unat_of_nat32)
  show ?thesis
  proof (cases "i < m")
    case True
    then have iI: "i \<in> set [0..<nI]" using i by (simp add: nI_def)
    have "of_nat i < getMaxInlineResults L"
      using True i R by (simp add: word_less_nat_alt unat_of_nat32 m_def)
    then have g: "getOpResultImpl cfg L op (of_nat i) = Inr (aI i)"
      using lt by (simp add: getOpResultImpl_def getNumResults_def op addrI [OF i])
    have "mem (aI i) = Some (InlineOpResult (resultTypes ! i) (of_nat i))"
      unfolding mem using map_of_map_upt_hit [OF injI iI, of "\<lambda>k. InlineOpResult (resultTypes ! k) (of_nat k)"]
      by (simp add: map_add_def)
    with g True show ?thesis by (simp add: m_def [symmetric] addrI [OF i])
  next
    case False
    then have nI: "nI = m" and jT: "i - m \<in> set [0..<nT]" using i by (auto simp: nI_def nT_def)
    have j: "i - m < length resultTypes" using i by simp
    have "\<not> of_nat i < getMaxInlineResults L"
      using False i R by (simp add: word_less_nat_alt unat_of_nat32 m_def)
    moreover have "(of_nat i :: 32 word) - getMaxInlineResults L = of_nat (i - m)"
      using False by (simp add: M)
    ultimately have g: "getOpResultImpl cfg L op (of_nat i) = Inr (aO (i - m))"
      using lt by (simp add: getOpResultImpl_def getNumResults_def op addrO [OF j] Let_def)
    have miss: "aO (i - m) \<notin> aI ` set [0..<nI]"
    proof
      assume "aO (i - m) \<in> aI ` set [0..<nI]"
      then obtain k where k: "k < m" and e: "aO (i - m) = aI k" by (auto simp: nI)
      from e have "int m * int (sizeofInlineOpResult L) + int (Suc (i - m)) * int (sizeofOutOfLineOpResult L)
                 = int (Suc k) * int (sizeofInlineOpResult L)"
        by (simp add: aO_def aI_def)
      then have "m * sizeofInlineOpResult L + Suc (i - m) * sizeofOutOfLineOpResult L
                 = Suc k * sizeofInlineOpResult L"
        by (metis (mono_tags, opaque_lifting) of_nat_add of_nat_eq_iff of_nat_mult)
      moreover have "Suc k * sizeofInlineOpResult L \<le> m * sizeofInlineOpResult L"
        using k by (intro mult_le_mono1) simp
      moreover have "0 < Suc (i - m) * sizeofOutOfLineOpResult L" using sO by simp
      ultimately show False by linarith
    qed
    have "mem (aO (i - m)) = Some (OutOfLineOpResult (resultTypes ! (nI + (i - m))) (of_nat (i - m)))"
      unfolding mem
      using map_of_map_upt_hit [OF injO jT, of "\<lambda>k. OutOfLineOpResult (resultTypes ! (nI + k)) (of_nat k)"]
        map_of_map_upt_miss [OF miss, of "\<lambda>k. InlineOpResult (resultTypes ! k) (of_nat k)"]
      by (simp add: map_add_def)
    moreover have "nI + (i - m) = i" using False by (simp add: nI)
    ultimately show ?thesis using g False by (simp add: m_def [symmetric] addrO [OF j] del: of_nat_diff)
  qed
qed


text \<open>
  Claim C5, as amended. Let an operation be created with fewer than \<open>2^32\<close> result
  types and successors and fewer than \<open>2^23\<close> regions, the two result classes having
  a positive size. Then \<^verbatim>\<open>getNumResults\<close>, \<^verbatim>\<open>getNumSuccessors\<close> and
  \<^verbatim>\<open>getNumRegions\<close> return the counts given to \<^verbatim>\<open>create\<close> (the fields are never
  written again), and for every result index \<open>i\<close> below the result count
  \<^verbatim>\<open>getOpResultImpl\<close> returns the address \<^verbatim>\<open>getInlineOpResult(i)\<close> if \<open>i\<close> is below
  the inline capacity and \<^verbatim>\<open>getOutOfLineOpResult(i - capacity)\<close> otherwise, where the
  memory holds an inline, respectively out-of-line, result object with the \<open>i\<close>-th
  result type.
\<close>

theorem Operation_create_counts_and_results:
  fixes resultTypes :: "Type list"
  assumes "length resultTypes < 2 ^ 32" and "length successors < 2 ^ 32"
    and "regions < 2 ^ 23"
    and "0 < sizeofInlineOpResult L" and "0 < sizeofOutOfLineOpResult L"
    and "Operation_create L rawMem resultTypes successors regions = (op, mem)"
  shows "unat (getNumResults op) = length resultTypes
       \<and> unat (getNumSuccessors op) = length successors
       \<and> getNumRegions op = regions
       \<and> (\<forall>i < length resultTypes.
            getOpResultImpl cfg L op (of_nat i) =
              Inr (if i < unat (getMaxInlineResults L) then getInlineOpResult L op (of_nat i)
                   else getOutOfLineOpResult L op (of_nat (i - unat (getMaxInlineResults L))))
            \<and> mem (if i < unat (getMaxInlineResults L) then getInlineOpResult L op (of_nat i)
                    else getOutOfLineOpResult L op (of_nat (i - unat (getMaxInlineResults L))))
               = Some (if i < unat (getMaxInlineResults L)
                       then InlineOpResult (resultTypes ! i) (of_nat i)
                       else OutOfLineOpResult (resultTypes ! i)
                              (of_nat (i - unat (getMaxInlineResults L)))))"
proof -
  have op: "op = fst (Operation_create L rawMem resultTypes successors regions)"
    using assms(6) by simp
  have "unat (getNumResults op) = length resultTypes"
    using assms(1) by (simp add: op Operation_create_def Let_def getNumResults_def unat_of_nat32)
  moreover have "unat (getNumSuccessors op) = length successors"
    using assms(2) by (simp add: op Operation_create_def Let_def getNumSuccessors_def unat_of_nat32)
  moreover have "getNumRegions op = regions"
    unfolding op by (rule getNumRegions_create [OF assms(3)])
  ultimately show ?thesis
    using Operation_create_result [OF assms(1) assms(4) assms(5) assms(6)] by blast
qed

text \<open>The claim as stated fails for the region count: created with \<open>2^23\<close> regions,
  the operation reports none.\<close>

theorem Operation_numRegions_truncated:
  "getNumRegions (fst (Operation_create ex_layout 1024 ex_resultTypes ([] :: unit list) 8388608)) = 0
   \<and> (0 :: 32 word) \<noteq> 8388608"
  by (simp add: Operation_create_def getNumRegions_def Let_def)

theorem Operation_create_counts_and_results_witness:
  "length ex_resultTypes < 2 ^ 32 \<and> length [(), ()] < 2 ^ 32 \<and> (3 :: 32 word) < 2 ^ 23 \<and>
   0 < sizeofInlineOpResult ex_layout \<and> 0 < sizeofOutOfLineOpResult ex_layout \<and>
   (\<exists>op mem. Operation_create ex_layout 1024 ex_resultTypes [(), ()] 3 = (op, mem) \<and>
      unat (getNumResults op) = 8 \<and> unat (getNumSuccessors op) = 2 \<and> getNumRegions op = 3 \<and>
      getOpResultImpl ex_cfg ex_layout op 2 = Inr (1024 - 3 * 16) \<and>
      mem (1024 - 3 * 16) = Some (InlineOpResult (Some 12) 2) \<and>
      getOpResultImpl ex_cfg ex_layout op 7 = Inr (1024 - 6 * 16 - 2 * 24) \<and>
      mem (1024 - 6 * 16 - 2 * 24) = Some (OutOfLineOpResult (Some 17) 1))"
proof -
  obtain op mem where cr: "Operation_create ex_layout 1024 ex_resultTypes [(), ()] 3 = (op, mem)"
    by (cases "Operation_create ex_layout 1024 ex_resultTypes [(), ()] 3")
  have h: "length ex_resultTypes < 2 ^ 32" "length [(), ()] < 2 ^ 32" "(3 :: 32 word) < 2 ^ 23"
    "0 < sizeofInlineOpResult ex_layout" "0 < sizeofOutOfLineOpResult ex_layout"
    by (simp_all add: ex_resultTypes_def ex_layout_def)
  note inst = Operation_create_counts_and_results [OF h cr, of ex_cfg]
  have len: "length ex_resultTypes = 8" by (simp add: ex_resultTypes_def)
  have this_op: "this op = 1024" using cr by (auto simp: Operation_create_def Let_def)
  from inst len have counts:
    "unat (getNumResults op) = 8 \<and> unat (getNumSuccessors op) = 2 \<and> getNumRegions op = 3"
    by simp
  have m: "unat (getMaxInlineResults ex_layout) = 6" by (simp add: ex_layout_def)
  note results = inst [THEN conjunct2, THEN conjunct2, THEN conjunct2, rule_format]
  from results [of 2] have r2: "getOpResultImpl ex_cfg ex_layout op (of_nat 2) =
        Inr (getInlineOpResult ex_layout op (of_nat 2)) \<and>
      mem (getInlineOpResult ex_layout op (of_nat 2)) = Some (InlineOpResult (ex_resultTypes ! 2) (of_nat 2))"
    by (simp only: len m) simp
  from results [of 7] have r7: "getOpResultImpl ex_cfg ex_layout op (of_nat 7) =
        Inr (getOutOfLineOpResult ex_layout op (of_nat (7 - 6))) \<and>
      mem (getOutOfLineOpResult ex_layout op (of_nat (7 - 6))) =
        Some (OutOfLineOpResult (ex_resultTypes ! 7) (of_nat (7 - 6)))"
    by (simp only: len m) simp
  have a2: "getInlineOpResult ex_layout op (of_nat 2) = 1024 - 3 * 16"
    by (simp add: getInlineOpResult_def this_op ex_layout_def)
  have a7: "getOutOfLineOpResult ex_layout op (of_nat (7 - 6)) = 1024 - 6 * 16 - 2 * 24"
    by (simp add: getOutOfLineOpResult_def getInlineOpResult_def this_op ex_layout_def)
  from r2 a2 have w2: "getOpResultImpl ex_cfg ex_layout op 2 = Inr (1024 - 3 * 16) \<and>
      mem (1024 - 3 * 16) = Some (InlineOpResult (Some 12) 2)"
    by (simp add: ex_resultTypes_def)
  from r7 a7 have w7: "getOpResultImpl ex_cfg ex_layout op 7 = Inr (1024 - 6 * 16 - 2 * 24) \<and>
      mem (1024 - 6 * 16 - 2 * 24) = Some (OutOfLineOpResult (Some 17) 1)"
    by (simp add: ex_resultTypes_def)
  from h cr counts w2 w7 show ?thesis by blast
qed

section \<open>Listing the loaded dialects\<close>

lemma compareNamespaces_le_0:
  "(\<exists>c. compareNamespaces x y = Inr c \<and> c \<le> 0) \<longleftrightarrow>
     (\<exists>l r. x = Some l \<and> y = Some r \<and> getNamespace r \<le> getNamespace l)"
  by (auto simp: compareNamespaces_def split: option.splits)

text \<open>
  Whatever sort it is run with: an array in which the comparison function of
  \<^verbatim>\<open>getLoadedDialects\<close> reports no element greater than its successor, which is what
  \<^verbatim>\<open>qsort\<close> is asked to produce, has the namespaces in descending order.
\<close>

lemma qsort_contract_descending:
  assumes "successively (\<lambda>x y. \<exists>c. compareNamespaces x y = Inr c \<and> c \<le> 0) result"
  shows "sorted_wrt (\<lambda>x y. \<exists>l r. x = Some l \<and> y = Some r \<and> getNamespace r \<le> getNamespace l) result"
proof -
  have "transp (\<lambda>x y. \<exists>l r. x = Some l \<and> y = Some r \<and> getNamespace r \<le> getNamespace l)"
    by (auto simp: transp_def)
  then show ?thesis
    using assms by (simp add: compareNamespaces_le_0 successively_conv_sorted_wrt)
qed

lemma namespace_builtin_less_test: "getNamespace builtin_dialect < getNamespace ex_dialect"
  by (simp add: getNamespace_def builtin_dialect_def ex_dialect_def less_char_def)

text \<open>
  Claim C10 fails on the code. With \<^verbatim>\<open>builtin\<close> and \<^verbatim>\<open>test\<close> loaded, the comparison
  function returns 1 for (\<^verbatim>\<open>builtin\<close>, \<^verbatim>\<open>test\<close>), which tells the sort that
  \<^verbatim>\<open>builtin\<close> is the greater, and 0 for (\<^verbatim>\<open>test\<close>, \<^verbatim>\<open>builtin\<close>); it never returns a
  negative number. Run with a sort that honours the comparison function,
  \<^verbatim>\<open>getLoadedDialects\<close> returns \<^verbatim>\<open>test\<close> before \<^verbatim>\<open>builtin\<close>, although
  \<^verbatim>\<open>builtin\<close> is the smaller namespace.
\<close>

theorem getLoadedDialects_not_ascending:
  "compareNamespaces (Some builtin_dialect) (Some ex_dialect) = Inr 1
   \<and> compareNamespaces (Some ex_dialect) (Some builtin_dialect) = Inr 0
   \<and> getLoadedDialects insertion_qsort ex_two_loaded = Inr [Some ex_dialect, Some builtin_dialect]
   \<and> getNamespace builtin_dialect < getNamespace ex_dialect"
proof -
  have 1: "getNamespace builtin_dialect < getNamespace ex_dialect"
    by (rule namespace_builtin_less_test)
  then have 2: "\<not> getNamespace ex_dialect < getNamespace builtin_dialect" by simp
  show ?thesis
    by (simp add: getLoadedDialects_def ex_two_loaded_def compareNamespaces_def 1 2)
qed

end
